theory Spec2Isabelle
  imports Main "HOL-Library.Word"
begin

section \<open>MongoDBBlockInputStream: results of a MongoDB query as a sequence of Blocks\<close>

text \<open>
  A shallow embedding of \<^verbatim>\<open>dbms/include/DB/Dictionaries/MongoDBBlockInputStream.h\<close>.
  The class binds the columns of a sample block to scalar kinds in its constructor,
  and \<^verbatim>\<open>readImpl\<close> turns up to \<^verbatim>\<open>max_block_size\<close> documents of a cursor into one block.
  Exceptions are values of a sum type, the cursor is explicit state, the loops are
  recursive functions.
\<close>

subsection \<open>Failures\<close>

datatype ErrorCodes = UNKNOWN_TYPE | TYPE_MISMATCH

text \<open>
  \<open>Exception\<close> is a thrown \<^verbatim>\<open>DB::Exception{message, code}\<close>.
  \<open>UndefinedBehaviour\<close> stands for an execution that C++ gives no meaning: a
  \<^verbatim>\<open>static_cast\<close> of a column pointer to a class that is not the class of the object, or an
  index past the end of a vector. \<open>MongoAssertion\<close> is an assertion raised inside the driver,
  for \<^verbatim>\<open>next()\<close> on a cursor without documents.
\<close>

datatype failure = Exception string ErrorCodes | UndefinedBehaviour | MongoAssertion

subsection \<open>Scalar kinds and type descriptors\<close>

datatype value_type_t =
    UInt8 | UInt16 | UInt32 | UInt64
  | Int8 | Int16 | Int32 | Int64
  | Float32 | Float64
  | String | Date | DateTime

text \<open>
  Modelled from the spec: the type descriptors of the host engine (the \<^verbatim>\<open>DataType*\<close> classes
  of \<^verbatim>\<open>DB/DataTypes\<close>, whose headers are not among the sources). The thirteen descriptors
  that the constructor tests for are constructors of their own; every other descriptor
  is \<open>DataTypeOther\<close> with the name it reports. \<open>getName\<close> is \<^verbatim>\<open>IDataType::getName()\<close>.
\<close>

datatype IDataType =
    DataTypeUInt8 | DataTypeUInt16 | DataTypeUInt32 | DataTypeUInt64
  | DataTypeInt8 | DataTypeInt16 | DataTypeInt32 | DataTypeInt64
  | DataTypeFloat32 | DataTypeFloat64
  | DataTypeString | DataTypeDate | DataTypeDateTime
  | DataTypeOther string

fun getName :: "IDataType \<Rightarrow> string" where
  "getName DataTypeUInt8 = ''UInt8''"
| "getName DataTypeUInt16 = ''UInt16''"
| "getName DataTypeUInt32 = ''UInt32''"
| "getName DataTypeUInt64 = ''UInt64''"
| "getName DataTypeInt8 = ''Int8''"
| "getName DataTypeInt16 = ''Int16''"
| "getName DataTypeInt32 = ''Int32''"
| "getName DataTypeInt64 = ''Int64''"
| "getName DataTypeFloat32 = ''Float32''"
| "getName DataTypeFloat64 = ''Float64''"
| "getName DataTypeString = ''String''"
| "getName DataTypeDate = ''Date''"
| "getName DataTypeDateTime = ''DateTime''"
| "getName (DataTypeOther nm) = nm"

subsection \<open>Columns and blocks\<close>

text \<open>
  A double is kept as its IEEE-754 binary64 image; a float is denoted by the double it was
  narrowed from (the rounding of the narrowing conversion is not interpreted).
\<close>

datatype Float64_t = Float64_bits "64 word"
datatype Float32_t = Float32_of_Float64 Float64_t

text \<open>
  Modelled from the spec: the column classes of the host engine (\<^verbatim>\<open>DB/Columns\<close>, not among
  the sources). One constructor per class, holding the elements in row order; the signed
  classes hold two's complement words. \<open>ColumnOther\<close> is any other column class.
  \<open>size_col\<close> is \<^verbatim>\<open>IColumn::size()\<close>, the number of rows, and \<open>cloneEmpty_col\<close> is
  \<^verbatim>\<open>IColumn::cloneEmpty()\<close>, an empty column of the same class.
\<close>

datatype IColumn =
    ColumnUInt8 "8 word list" | ColumnUInt16 "16 word list"
  | ColumnUInt32 "32 word list" | ColumnUInt64 "64 word list"
  | ColumnInt8 "8 word list" | ColumnInt16 "16 word list"
  | ColumnInt32 "32 word list" | ColumnInt64 "64 word list"
  | ColumnFloat32 "Float32_t list" | ColumnFloat64 "Float64_t list"
  | ColumnString "string list"
  | ColumnOther

fun size_col :: "IColumn \<Rightarrow> nat" where
  "size_col (ColumnUInt8 xs) = length xs"
| "size_col (ColumnUInt16 xs) = length xs"
| "size_col (ColumnUInt32 xs) = length xs"
| "size_col (ColumnUInt64 xs) = length xs"
| "size_col (ColumnInt8 xs) = length xs"
| "size_col (ColumnInt16 xs) = length xs"
| "size_col (ColumnInt32 xs) = length xs"
| "size_col (ColumnInt64 xs) = length xs"
| "size_col (ColumnFloat32 xs) = length xs"
| "size_col (ColumnFloat64 xs) = length xs"
| "size_col (ColumnString xs) = length xs"
| "size_col ColumnOther = 0"

fun cloneEmpty_col :: "IColumn \<Rightarrow> IColumn" where
  "cloneEmpty_col (ColumnUInt8 xs) = ColumnUInt8 []"
| "cloneEmpty_col (ColumnUInt16 xs) = ColumnUInt16 []"
| "cloneEmpty_col (ColumnUInt32 xs) = ColumnUInt32 []"
| "cloneEmpty_col (ColumnUInt64 xs) = ColumnUInt64 []"
| "cloneEmpty_col (ColumnInt8 xs) = ColumnInt8 []"
| "cloneEmpty_col (ColumnInt16 xs) = ColumnInt16 []"
| "cloneEmpty_col (ColumnInt32 xs) = ColumnInt32 []"
| "cloneEmpty_col (ColumnInt64 xs) = ColumnInt64 []"
| "cloneEmpty_col (ColumnFloat32 xs) = ColumnFloat32 []"
| "cloneEmpty_col (ColumnFloat64 xs) = ColumnFloat64 []"
| "cloneEmpty_col (ColumnString xs) = ColumnString []"
| "cloneEmpty_col ColumnOther = ColumnOther"

text \<open>
  Modelled from the spec: a block (\<^verbatim>\<open>DB/Core/Block.h\<close>, not among the sources) is the
  sequence of its columns, each with its type descriptor and its name. \<open>cloneEmpty\<close> is
  \<^verbatim>\<open>Block::cloneEmpty()\<close>: the same block with every column emptied. The block without
  columns, \<^verbatim>\<open>Block{}\<close>, is the empty list.
\<close>

record ColumnWithNameAndType =
  column :: IColumn
  type :: IDataType
  name :: string

type_synonym Block = "ColumnWithNameAndType list"

definition cloneEmpty :: "Block \<Rightarrow> Block" where
  "cloneEmpty b = map (\<lambda>elem. elem\<lparr>column := cloneEmpty_col (column elem)\<rparr>) b"

subsection \<open>Documents and the cursor\<close>

text \<open>
  Modelled from the spec: the driver's \<^verbatim>\<open>mongo::BSONElement\<close>, \<^verbatim>\<open>mongo::BSONObj\<close> and
  \<^verbatim>\<open>mongo::DBClientCursor\<close> (\<^verbatim>\<open>mongo/client/dbclient.h\<close>, not among the sources). An element
  is what its accessors return: the runtime tag and the result of each accessor that
  \<^verbatim>\<open>insertValue\<close> calls. An absent field is the element whose tag is \<open>EOO\<close>.
  \<open>typeName\<close> is \<^verbatim>\<open>mongo::typeName\<close>; \<open>ok\<close> and \<open>isNumber\<close> are the member functions of
  these names.
\<close>

datatype BSONType =
    MinKey | EOO | NumberDouble | mongo_String | Object | Array | BinData | Undefined
  | jstOID | Bool | mongo_Date | jstNULL | RegEx | DBRef | Code | Symbol | CodeWScope
  | NumberInt | Timestamp | NumberLong | MaxKey

fun typeName :: "BSONType \<Rightarrow> string" where
  "typeName MinKey = ''MinKey''"
| "typeName EOO = ''EOO''"
| "typeName NumberDouble = ''NumberDouble''"
| "typeName mongo_String = ''String''"
| "typeName Object = ''Object''"
| "typeName Array = ''Array''"
| "typeName BinData = ''BinaryData''"
| "typeName Undefined = ''Undefined''"
| "typeName jstOID = ''OID''"
| "typeName Bool = ''Bool''"
| "typeName mongo_Date = ''Date''"
| "typeName jstNULL = ''NULL''"
| "typeName RegEx = ''RegEx''"
| "typeName DBRef = ''DBRef''"
| "typeName Code = ''Code''"
| "typeName Symbol = ''Symbol''"
| "typeName CodeWScope = ''CodeWScope''"
| "typeName NumberInt = ''NumberInt32''"
| "typeName Timestamp = ''Timestamp''"
| "typeName NumberLong = ''NumberLong64''"
| "typeName MaxKey = ''MaxKey''"

text \<open>\<open>Date_t\<close>: milliseconds since the Unix epoch, an unsigned 64-bit count.\<close>

type_synonym Date_t = "64 word"
type_synonym time_t = "64 word"

record BSONElement =
  type_e :: BSONType
  boolean :: bool
  numberInt :: "32 word"
  numberLong :: "64 word"
  number :: Float64_t
  String_e :: string
  date :: Date_t

definition ok :: "BSONElement \<Rightarrow> bool" where
  "ok value = (type_e value \<noteq> EOO)"

definition isNumber :: "BSONElement \<Rightarrow> bool" where
  "isNumber value = (type_e value = NumberLong \<or> type_e value = NumberDouble \<or> type_e value = NumberInt)"

text \<open>
  Modelled from the spec: the driver's \<^verbatim>\<open>Date_t::toTimeT\<close>, the timestamp truncated to
  whole seconds: \<^verbatim>\<open>millis / 1000\<close> on the unsigned count. The spec names no failure of
  this conversion, and the model has none.
\<close>

definition toTimeT :: "Date_t \<Rightarrow> time_t" where
  "toTimeT millis = millis div 1000"

text \<open>
  \<^verbatim>\<open>DateLUT::instance().toDayNum\<close> belongs to the date lookup table of the common library,
  which is not among the sources. It is taken as a parameter, \<open>toDayNum\<close>, of every
  function that reaches it: any function from a time to a day number. A day number
  (\<^verbatim>\<open>DayNum_t\<close>) is a 16-bit value: the source converts it with \<^verbatim>\<open>UInt16{...}\<close>, a
  list-initialisation, which admits no narrowing.
\<close>

type_synonym DayNum_t = "16 word"

type_synonym BSONObj = "(string \<times> BSONElement) list"

definition eoo_element :: BSONElement where
  "eoo_element = \<lparr>type_e = EOO, boolean = False, numberInt = 0, numberLong = 0,
     number = Float64_bits 0, String_e = [], date = 0\<rparr>"

text \<open>
  Modelled from the spec: the lookup \<^verbatim>\<open>row[name]\<close> of a field by its name, which gives the
  first field of that name, and the EOO element when there is none.
\<close>

definition getField :: "BSONObj \<Rightarrow> string \<Rightarrow> BSONElement" where
  "getField row nm = (case map_of row nm of None \<Rightarrow> eoo_element | Some value \<Rightarrow> value)"

text \<open>
  Modelled from the spec: the cursor is the documents it has not returned yet, and the
  sequence of calls made on it so far, which records every access to the cursor.
  \<open>cursor_more\<close> is \<^verbatim>\<open>more()\<close> and \<open>cursor_next\<close> is \<^verbatim>\<open>next()\<close>, which the driver asserts
  is not called on a cursor without documents.
\<close>

datatype cursor_call = call_more | call_next

record DBClientCursor =
  docs :: "BSONObj list"
  calls :: "cursor_call list"

definition cursor_more :: "DBClientCursor \<Rightarrow> bool \<times> DBClientCursor" where
  "cursor_more c = (docs c \<noteq> [], c\<lparr>calls := calls c @ [call_more]\<rparr>)"

definition cursor_next :: "DBClientCursor \<Rightarrow> (failure + BSONObj) \<times> DBClientCursor" where
  "cursor_next c =
     (case docs c of
        [] \<Rightarrow> (Inl MongoAssertion, c\<lparr>calls := calls c @ [call_next]\<rparr>)
      | row # rest \<Rightarrow> (Inr row, c\<lparr>docs := rest, calls := calls c @ [call_next]\<rparr>))"

subsection \<open>The stream and its constructor\<close>

record MongoDBBlockInputStream =
  cursor :: DBClientCursor
  sample_block :: Block
  max_block_size :: nat
  types :: "value_type_t list"
  names :: "string list"

text \<open>
  The chain of \<^verbatim>\<open>typeid_cast\<close> tests of the constructor, in the order of the source. The
  tenth test asks for \<^verbatim>\<open>DataTypeInt64\<close> a second time.
\<close>

definition value_type_of :: "IDataType \<Rightarrow> value_type_t option" where
  "value_type_of t =
     (if t = DataTypeUInt8 then Some UInt8
      else if t = DataTypeUInt16 then Some UInt16
      else if t = DataTypeUInt32 then Some UInt32
      else if t = DataTypeUInt64 then Some UInt64
      else if t = DataTypeInt8 then Some Int8
      else if t = DataTypeInt16 then Some Int16
      else if t = DataTypeInt32 then Some Int32
      else if t = DataTypeInt64 then Some Int64
      else if t = DataTypeFloat32 then Some Float32
      else if t = DataTypeInt64 then Some Float64
      else if t = DataTypeString then Some String
      else if t = DataTypeDate then Some Date
      else if t = DataTypeDateTime then Some DateTime
      else None)"

text \<open>The loop over the columns of the sample block, with the two vectors it fills.\<close>

fun bind_columns ::
  "Block \<Rightarrow> value_type_t list \<Rightarrow> string list \<Rightarrow> failure + (value_type_t list \<times> string list)" where
  "bind_columns [] ts ns = Inr (ts, ns)"
| "bind_columns (col # rest) ts ns =
     (case value_type_of (type col) of
        None \<Rightarrow> Inl (Exception (''Unsupported type '' @ getName (type col)) UNKNOWN_TYPE)
      | Some t \<Rightarrow> bind_columns rest (ts @ [t]) (ns @ [name col]))"

text \<open>
  The constructor. When it throws, the result keeps the cursor as it was left, so that
  what was done to the source can be read off.
\<close>

definition new_MongoDBBlockInputStream ::
  "DBClientCursor \<Rightarrow> Block \<Rightarrow> nat \<Rightarrow> (failure \<times> DBClientCursor) + MongoDBBlockInputStream" where
  "new_MongoDBBlockInputStream cursor0 sample n =
     (let (m, c) = cursor_more cursor0 in
      if \<not> m then
        Inr \<lparr>cursor = c, sample_block = sample, max_block_size = n, types = [], names = []\<rparr>
      else
        (case bind_columns sample [] [] of
           Inl e \<Rightarrow> Inl (e, c)
         | Inr (ts, ns) \<Rightarrow>
             Inr \<lparr>cursor = c, sample_block = sample, max_block_size = n, types = ts, names = ns\<rparr>))"

subsection \<open>Inserting one value\<close>

text \<open>
  \<^verbatim>\<open>static_cast<ColumnX *>(column)->insert(v)\<close> appends \<open>v\<close>, converted to the element type of
  \<^verbatim>\<open>ColumnX\<close>, when the column is a \<^verbatim>\<open>ColumnX\<close>; on a column of another class the cast has no
  defined behaviour. An integer conversion to a narrower or unsigned type keeps the low
  bits (\<open>ucast\<close>). The double of a \<^verbatim>\<open>bool\<close> is 1.0 or 0.0. The day number of a \<open>Date\<close>
  is appended as the lookup table returns it.
\<close>

definition Float64_of_bool :: "bool \<Rightarrow> Float64_t" where
  "Float64_of_bool b = Float64_bits (if b then 0x3FF0000000000000 else 0)"

fun insertValue ::
  "(time_t \<Rightarrow> DayNum_t) \<Rightarrow> IColumn \<Rightarrow> value_type_t \<Rightarrow> BSONElement \<Rightarrow> failure + IColumn" where
  "insertValue toDayNum col UInt8 value =
     (if type_e value \<noteq> Bool then
        Inl (Exception (''Type mismatch, expected Bool, got '' @ typeName (type_e value)) TYPE_MISMATCH)
      else
        (case col of
           ColumnFloat64 xs \<Rightarrow> Inr (ColumnFloat64 (xs @ [Float64_of_bool (boolean value)]))
         | _ \<Rightarrow> Inl UndefinedBehaviour))"
| "insertValue toDayNum col UInt16 value =
     (if \<not> isNumber value then
        Inl (Exception (''Type mismatch, expected a number, got '' @ typeName (type_e value)) TYPE_MISMATCH)
      else
        (case col of
           ColumnUInt16 xs \<Rightarrow> Inr (ColumnUInt16 (xs @ [ucast (numberInt value)]))
         | _ \<Rightarrow> Inl UndefinedBehaviour))"
| "insertValue toDayNum col UInt32 value =
     (if \<not> isNumber value then
        Inl (Exception (''Type mismatch, expected a number, got '' @ typeName (type_e value)) TYPE_MISMATCH)
      else
        (case col of
           ColumnUInt32 xs \<Rightarrow> Inr (ColumnUInt32 (xs @ [ucast (numberInt value)]))
         | _ \<Rightarrow> Inl UndefinedBehaviour))"
| "insertValue toDayNum col UInt64 value =
     (if \<not> isNumber value then
        Inl (Exception (''Type mismatch, expected a number, got '' @ typeName (type_e value)) TYPE_MISMATCH)
      else
        (case col of
           ColumnUInt64 xs \<Rightarrow> Inr (ColumnUInt64 (xs @ [ucast (numberLong value)]))
         | _ \<Rightarrow> Inl UndefinedBehaviour))"
| "insertValue toDayNum col Int8 value =
     (if \<not> isNumber value then
        Inl (Exception (''Type mismatch, expected a number, got '' @ typeName (type_e value)) TYPE_MISMATCH)
      else
        (case col of
           ColumnInt8 xs \<Rightarrow> Inr (ColumnInt8 (xs @ [ucast (numberInt value)]))
         | _ \<Rightarrow> Inl UndefinedBehaviour))"
| "insertValue toDayNum col Int16 value =
     (if \<not> isNumber value then
        Inl (Exception (''Type mismatch, expected a number, got '' @ typeName (type_e value)) TYPE_MISMATCH)
      else
        (case col of
           ColumnInt16 xs \<Rightarrow> Inr (ColumnInt16 (xs @ [ucast (numberInt value)]))
         | _ \<Rightarrow> Inl UndefinedBehaviour))"
| "insertValue toDayNum col Int32 value =
     (if \<not> isNumber value then
        Inl (Exception (''Type mismatch, expected a number, got '' @ typeName (type_e value)) TYPE_MISMATCH)
      else
        (case col of
           ColumnInt32 xs \<Rightarrow> Inr (ColumnInt32 (xs @ [ucast (numberInt value)]))
         | _ \<Rightarrow> Inl UndefinedBehaviour))"
| "insertValue toDayNum col Int64 value =
     (if \<not> isNumber value then
        Inl (Exception (''Type mismatch, expected a number, got '' @ typeName (type_e value)) TYPE_MISMATCH)
      else
        (case col of
           ColumnInt64 xs \<Rightarrow> Inr (ColumnInt64 (xs @ [ucast (numberLong value)]))
         | _ \<Rightarrow> Inl UndefinedBehaviour))"
| "insertValue toDayNum col Float32 value =
     (if \<not> isNumber value then
        Inl (Exception (''Type mismatch, expected a number, got '' @ typeName (type_e value)) TYPE_MISMATCH)
      else
        (case col of
           ColumnFloat32 xs \<Rightarrow> Inr (ColumnFloat32 (xs @ [Float32_of_Float64 (number value)]))
         | _ \<Rightarrow> Inl UndefinedBehaviour))"
| "insertValue toDayNum col Float64 value =
     (if \<not> isNumber value then
        Inl (Exception (''Type mismatch, expected a number, got '' @ typeName (type_e value)) TYPE_MISMATCH)
      else
        (case col of
           ColumnFloat64 xs \<Rightarrow> Inr (ColumnFloat64 (xs @ [number value]))
         | _ \<Rightarrow> Inl UndefinedBehaviour))"
| "insertValue toDayNum col String value =
     (if type_e value \<noteq> mongo_String then
        Inl (Exception (''Type mismatch, expected String, got '' @ typeName (type_e value)) TYPE_MISMATCH)
      else
        (case col of
           ColumnString xs \<Rightarrow> Inr (ColumnString (xs @ [String_e value]))
         | _ \<Rightarrow> Inl UndefinedBehaviour))"
| "insertValue toDayNum col Date value =
     (if type_e value \<noteq> mongo_Date then
        Inl (Exception (''Type mismatch, expected Date, got '' @ typeName (type_e value)) TYPE_MISMATCH)
      else
        (case col of
           ColumnUInt16 xs \<Rightarrow> Inr (ColumnUInt16 (xs @ [toDayNum (toTimeT (date value))]))
         | _ \<Rightarrow> Inl UndefinedBehaviour))"
| "insertValue toDayNum col DateTime value =
     (if type_e value \<noteq> mongo_Date then
        Inl (Exception (''Type mismatch, expected Date, got '' @ typeName (type_e value)) TYPE_MISMATCH)
      else
        (case col of
           ColumnUInt32 xs \<Rightarrow> Inr (ColumnUInt32 (xs @ [ucast (toTimeT (date value))]))
         | _ \<Rightarrow> Inl UndefinedBehaviour))"

text \<open>\<^verbatim>\<open>insertDefault()\<close> appends the value-initialised element: zero, or the empty string.\<close>

fun insertDefaultValue :: "IColumn \<Rightarrow> value_type_t \<Rightarrow> failure + IColumn" where
  "insertDefaultValue col UInt8 =
     (case col of ColumnUInt8 xs \<Rightarrow> Inr (ColumnUInt8 (xs @ [0])) | _ \<Rightarrow> Inl UndefinedBehaviour)"
| "insertDefaultValue col UInt16 =
     (case col of ColumnUInt16 xs \<Rightarrow> Inr (ColumnUInt16 (xs @ [0])) | _ \<Rightarrow> Inl UndefinedBehaviour)"
| "insertDefaultValue col UInt32 =
     (case col of ColumnUInt32 xs \<Rightarrow> Inr (ColumnUInt32 (xs @ [0])) | _ \<Rightarrow> Inl UndefinedBehaviour)"
| "insertDefaultValue col UInt64 =
     (case col of ColumnUInt64 xs \<Rightarrow> Inr (ColumnUInt64 (xs @ [0])) | _ \<Rightarrow> Inl UndefinedBehaviour)"
| "insertDefaultValue col Int8 =
     (case col of ColumnInt8 xs \<Rightarrow> Inr (ColumnInt8 (xs @ [0])) | _ \<Rightarrow> Inl UndefinedBehaviour)"
| "insertDefaultValue col Int16 =
     (case col of ColumnInt16 xs \<Rightarrow> Inr (ColumnInt16 (xs @ [0])) | _ \<Rightarrow> Inl UndefinedBehaviour)"
| "insertDefaultValue col Int32 =
     (case col of ColumnInt32 xs \<Rightarrow> Inr (ColumnInt32 (xs @ [0])) | _ \<Rightarrow> Inl UndefinedBehaviour)"
| "insertDefaultValue col Int64 =
     (case col of ColumnInt64 xs \<Rightarrow> Inr (ColumnInt64 (xs @ [0])) | _ \<Rightarrow> Inl UndefinedBehaviour)"
| "insertDefaultValue col Float32 =
     (case col of ColumnFloat32 xs \<Rightarrow> Inr (ColumnFloat32 (xs @ [Float32_of_Float64 (Float64_bits 0)])) | _ \<Rightarrow> Inl UndefinedBehaviour)"
| "insertDefaultValue col Float64 =
     (case col of ColumnFloat64 xs \<Rightarrow> Inr (ColumnFloat64 (xs @ [Float64_bits 0])) | _ \<Rightarrow> Inl UndefinedBehaviour)"
| "insertDefaultValue col String =
     (case col of ColumnString xs \<Rightarrow> Inr (ColumnString (xs @ [[]])) | _ \<Rightarrow> Inl UndefinedBehaviour)"
| "insertDefaultValue col Date =
     (case col of ColumnUInt16 xs \<Rightarrow> Inr (ColumnUInt16 (xs @ [0])) | _ \<Rightarrow> Inl UndefinedBehaviour)"
| "insertDefaultValue col DateTime =
     (case col of ColumnUInt32 xs \<Rightarrow> Inr (ColumnUInt32 (xs @ [0])) | _ \<Rightarrow> Inl UndefinedBehaviour)"

subsection \<open>Reading one block\<close>

text \<open>
  The inner loop of \<^verbatim>\<open>readImpl\<close> over the column indices of one row. \<open>columns\<close> are the
  cached column pointers: an insertion changes the column at that index.
\<close>

fun insert_fields ::
  "(time_t \<Rightarrow> DayNum_t) \<Rightarrow> string list \<Rightarrow> value_type_t list \<Rightarrow> BSONObj \<Rightarrow> nat list \<Rightarrow> IColumn list
     \<Rightarrow> failure + IColumn list" where
  "insert_fields toDayNum ns ts row [] columns = Inr columns"
| "insert_fields toDayNum ns ts row (idx # rest) columns =
     (if idx < length ns \<and> idx < length ts \<and> idx < length columns then
        (let value = getField row (ns ! idx) in
         case (if ok value then insertValue toDayNum (columns ! idx) (ts ! idx) value
               else insertDefaultValue (columns ! idx) (ts ! idx)) of
           Inl e \<Rightarrow> Inl e
         | Inr col \<Rightarrow> insert_fields toDayNum ns ts row rest (columns[idx := col]))
      else Inl UndefinedBehaviour)"

text \<open>
  The \<^verbatim>\<open>while (cursor->more())\<close> loop. \<open>num_rows\<close> is a \<^verbatim>\<open>size_t\<close>; it is a natural number
  here, since a count of rows read from a cursor stays far below \<open>2 ^ 64\<close>.
\<close>

function read_loop ::
  "(time_t \<Rightarrow> DayNum_t) \<Rightarrow> string list \<Rightarrow> value_type_t list \<Rightarrow> nat \<Rightarrow> nat \<Rightarrow> DBClientCursor
     \<Rightarrow> IColumn list \<Rightarrow> nat \<Rightarrow> (failure + IColumn list) \<times> DBClientCursor" where
  "read_loop toDayNum ns ts max_sz sz c columns num_rows =
     (case cursor_more c of
        (False, c1) \<Rightarrow> (Inr columns, c1)
      | (True, c1) \<Rightarrow>
          (case cursor_next c1 of
             (Inl e, c2) \<Rightarrow> (Inl e, c2)
           | (Inr row, c2) \<Rightarrow>
               (case insert_fields toDayNum ns ts row [0..<sz] columns of
                  Inl e \<Rightarrow> (Inl e, c2)
                | Inr columns' \<Rightarrow>
                    if num_rows + 1 = max_sz then (Inr columns', c2)
                    else read_loop toDayNum ns ts max_sz sz c2 columns' (num_rows + 1))))"
  by pat_completeness auto
termination
  by (relation "measure (\<lambda>(toDayNum, ns, ts, max_sz, sz, c, columns, num_rows). length (docs c))")
     (auto simp: cursor_more_def cursor_next_def split: list.splits)

declare read_loop.simps [simp del]

definition readImpl ::
  "(time_t \<Rightarrow> DayNum_t) \<Rightarrow> MongoDBBlockInputStream \<Rightarrow> (failure + Block) \<times> MongoDBBlockInputStream" where
  "readImpl toDayNum s =
     (case cursor_more (cursor s) of
        (False, c) \<Rightarrow> (Inr [], s\<lparr>cursor := c\<rparr>)
      | (True, c) \<Rightarrow>
          (let block = cloneEmpty (sample_block s);
               columns = map column block;
               sz = length columns
           in case read_loop toDayNum (names s) (types s) (max_block_size s) sz c columns 0 of
                (Inl e, c') \<Rightarrow> (Inl e, s\<lparr>cursor := c'\<rparr>)
              | (Inr columns', c') \<Rightarrow>
                  (Inr (map2 (\<lambda>elem col. elem\<lparr>column := col\<rparr>) block columns'),
                   s\<lparr>cursor := c'\<rparr>)))"

text \<open>
  \<open>reads toDayNum m\<close> calls \<^verbatim>\<open>readImpl\<close> \<open>m\<close> times in a row and collects the blocks; it stops at the
  first failure.
\<close>

fun reads ::
  "(time_t \<Rightarrow> DayNum_t) \<Rightarrow> nat \<Rightarrow> MongoDBBlockInputStream
     \<Rightarrow> (failure + Block list) \<times> MongoDBBlockInputStream" where
  "reads toDayNum 0 s = (Inr [], s)"
| "reads toDayNum (Suc m) s =
     (case readImpl toDayNum s of
        (Inl e, s') \<Rightarrow> (Inl e, s')
      | (Inr b, s') \<Rightarrow>
          (case reads toDayNum m s' of
             (Inl e, s'') \<Rightarrow> (Inl e, s'')
           | (Inr bs, s'') \<Rightarrow> (Inr (b # bs), s'')))"

subsection \<open>Observing columns\<close>

text \<open>
  What a column holds, read without regard to its class: the class itself, and its
  elements in row order as cells. These are used to state properties, not by the code.
\<close>

datatype cell =
    Cell8 "8 word" | Cell16 "16 word" | Cell32 "32 word" | Cell64 "64 word"
  | CellFloat32 Float32_t | CellFloat64 Float64_t | CellString string

fun cells :: "IColumn \<Rightarrow> cell list" where
  "cells (ColumnUInt8 xs) = map Cell8 xs"
| "cells (ColumnUInt16 xs) = map Cell16 xs"
| "cells (ColumnUInt32 xs) = map Cell32 xs"
| "cells (ColumnUInt64 xs) = map Cell64 xs"
| "cells (ColumnInt8 xs) = map Cell8 xs"
| "cells (ColumnInt16 xs) = map Cell16 xs"
| "cells (ColumnInt32 xs) = map Cell32 xs"
| "cells (ColumnInt64 xs) = map Cell64 xs"
| "cells (ColumnFloat32 xs) = map CellFloat32 xs"
| "cells (ColumnFloat64 xs) = map CellFloat64 xs"
| "cells (ColumnString xs) = map CellString xs"
| "cells ColumnOther = []"

text \<open>The zero value of an element type: numeric zero, positive floating zero, the empty string.\<close>

fun is_zero :: "cell \<Rightarrow> bool" where
  "is_zero (Cell8 x) = (x = 0)"
| "is_zero (Cell16 x) = (x = 0)"
| "is_zero (Cell32 x) = (x = 0)"
| "is_zero (Cell64 x) = (x = 0)"
| "is_zero (CellFloat32 x) = (x = Float32_of_Float64 (Float64_bits 0))"
| "is_zero (CellFloat64 x) = (x = Float64_bits 0)"
| "is_zero (CellString x) = (x = [])"

text \<open>
  The column class that holds a scalar kind in the host engine: the class of the same
  name, a \<^verbatim>\<open>ColumnUInt16\<close> of day numbers for \<open>Date\<close> and a \<^verbatim>\<open>ColumnUInt32\<close> of seconds for
  \<open>DateTime\<close>.
\<close>

fun column_of_kind :: "value_type_t \<Rightarrow> IColumn \<Rightarrow> bool" where
  "column_of_kind UInt8 col = (case col of ColumnUInt8 xs \<Rightarrow> True | _ \<Rightarrow> False)"
| "column_of_kind UInt16 col = (case col of ColumnUInt16 xs \<Rightarrow> True | _ \<Rightarrow> False)"
| "column_of_kind UInt32 col = (case col of ColumnUInt32 xs \<Rightarrow> True | _ \<Rightarrow> False)"
| "column_of_kind UInt64 col = (case col of ColumnUInt64 xs \<Rightarrow> True | _ \<Rightarrow> False)"
| "column_of_kind Int8 col = (case col of ColumnInt8 xs \<Rightarrow> True | _ \<Rightarrow> False)"
| "column_of_kind Int16 col = (case col of ColumnInt16 xs \<Rightarrow> True | _ \<Rightarrow> False)"
| "column_of_kind Int32 col = (case col of ColumnInt32 xs \<Rightarrow> True | _ \<Rightarrow> False)"
| "column_of_kind Int64 col = (case col of ColumnInt64 xs \<Rightarrow> True | _ \<Rightarrow> False)"
| "column_of_kind Float32 col = (case col of ColumnFloat32 xs \<Rightarrow> True | _ \<Rightarrow> False)"
| "column_of_kind Float64 col = (case col of ColumnFloat64 xs \<Rightarrow> True | _ \<Rightarrow> False)"
| "column_of_kind String col = (case col of ColumnString xs \<Rightarrow> True | _ \<Rightarrow> False)"
| "column_of_kind Date col = (case col of ColumnUInt16 xs \<Rightarrow> True | _ \<Rightarrow> False)"
| "column_of_kind DateTime col = (case col of ColumnUInt32 xs \<Rightarrow> True | _ \<Rightarrow> False)"

text \<open>The body of the loop over the fields: what is done to the column of one field.\<close>

definition field_step ::
  "(time_t \<Rightarrow> DayNum_t) \<Rightarrow> string list \<Rightarrow> value_type_t list \<Rightarrow> BSONObj \<Rightarrow> nat \<Rightarrow> IColumn
     \<Rightarrow> failure + IColumn" where
  "field_step toDayNum ns ts row idx col =
     (if ok (getField row (ns ! idx)) then insertValue toDayNum col (ts ! idx) (getField row (ns ! idx))
      else insertDefaultValue col (ts ! idx))"

text \<open>
  The number of documents that one run of the loop takes from \<open>k\<close> documents, when the
  row counter starts at \<open>r\<close> and the block size is \<open>n\<close>.
\<close>

definition rows_taken :: "nat \<Rightarrow> nat \<Rightarrow> nat \<Rightarrow> nat" where
  "rows_taken n r k = (if r < n then min (n - r) k else k)"

text \<open>
  The invariant of the loop over the documents: \<open>cols'\<close> is what \<open>cols\<close> becomes after the
  rows \<open>rows\<close> have been inserted one after the other. Every column keeps its class and
  gains one cell per row, the step of every row succeeded on that field, and the cell
  of a row that lacks the field is a zero in a column of the field's kind.
\<close>

definition grown_at ::
  "(time_t \<Rightarrow> DayNum_t) \<Rightarrow> string list \<Rightarrow> value_type_t list \<Rightarrow> BSONObj list \<Rightarrow> nat
     \<Rightarrow> IColumn \<Rightarrow> IColumn \<Rightarrow> bool" where
  "grown_at toDayNum ns ts rows idx col col' =
     (\<exists>xs. cells col' = cells col @ xs \<and> length xs = length rows \<and>
        cloneEmpty_col col' = cloneEmpty_col col \<and>
        (\<forall>j<length rows.
            (\<exists>a a'. field_step toDayNum ns ts (rows ! j) idx a = Inr a') \<and>
            (\<not> ok (getField (rows ! j) (ns ! idx)) \<longrightarrow>
               is_zero (xs ! j) \<and> column_of_kind (ts ! idx) col')))"

definition grown ::
  "(time_t \<Rightarrow> DayNum_t) \<Rightarrow> string list \<Rightarrow> value_type_t list \<Rightarrow> BSONObj list
     \<Rightarrow> IColumn list \<Rightarrow> IColumn list \<Rightarrow> bool" where
  "grown toDayNum ns ts rows cols cols' =
     (length cols' = length cols \<and>
      (\<forall>idx<length cols. grown_at toDayNum ns ts rows idx (cols ! idx) (cols' ! idx)))"

text \<open>
  A document fits the columns when the step of every field succeeds on an empty column
  of the class of that field's column: a present value has the tag that its kind
  expects and the column is of the class that \<^verbatim>\<open>insertValue\<close> casts to, an absent one
  meets a column of the class that \<^verbatim>\<open>insertDefaultValue\<close> casts to.
\<close>

definition row_fits ::
  "(time_t \<Rightarrow> DayNum_t) \<Rightarrow> string list \<Rightarrow> value_type_t list \<Rightarrow> IColumn list \<Rightarrow> BSONObj \<Rightarrow> bool" where
  "row_fits toDayNum ns ts cols row =
     (\<forall>idx<length cols. idx < length ns \<and> idx < length ts \<and>
        (\<exists>col'. field_step toDayNum ns ts row idx (cloneEmpty_col (cols ! idx)) = Inr col'))"

subsection \<open>Example inputs\<close>

text \<open>
  The scenario of the specification: the sample block \<open>id UInt32, name String, joined Date\<close>,
  block size 2, and three documents, the second without a name. The dates are the
  days 100, 200 and 300 after the epoch, in milliseconds.
\<close>

definition scenario_block :: Block where
  "scenario_block =
     [\<lparr>column = ColumnUInt32 [], type = DataTypeUInt32, name = ''id''\<rparr>,
      \<lparr>column = ColumnString [], type = DataTypeString, name = ''name''\<rparr>,
      \<lparr>column = ColumnUInt16 [], type = DataTypeDate, name = ''joined''\<rparr>]"

definition scenario_docs :: "BSONObj list" where
  "scenario_docs =
     [[(''id'', eoo_element\<lparr>type_e := NumberInt, numberInt := 1, numberLong := 1,
                             number := Float64_bits 0x3FF0000000000000\<rparr>),
       (''name'', eoo_element\<lparr>type_e := mongo_String, String_e := ''a''\<rparr>),
       (''joined'', eoo_element\<lparr>type_e := mongo_Date, date := 8640000000\<rparr>)],
      [(''id'', eoo_element\<lparr>type_e := NumberInt, numberInt := 2, numberLong := 2,
                             number := Float64_bits 0x4000000000000000\<rparr>),
       (''joined'', eoo_element\<lparr>type_e := mongo_Date, date := 17280000000\<rparr>)],
      [(''id'', eoo_element\<lparr>type_e := NumberInt, numberInt := 3, numberLong := 3,
                             number := Float64_bits 0x4008000000000000\<rparr>),
       (''name'', eoo_element\<lparr>type_e := mongo_String, String_e := ''c''\<rparr>),
       (''joined'', eoo_element\<lparr>type_e := mongo_Date, date := 25920000000\<rparr>)]]"

text \<open>
  A lookup table for the examples: it knows the days below \<open>2 ^ 16\<close>, in a zone without
  offset, and answers day 0 for a time beyond them.
\<close>

definition example_toDayNum :: "time_t \<Rightarrow> DayNum_t" where
  "example_toDayNum t = (if unat t div 86400 < 2 ^ 16 then of_nat (unat t div 86400) else 0)"

text \<open>The stream that the constructor builds from the scenario.\<close>

definition scenario_stream :: MongoDBBlockInputStream where
  "scenario_stream =
     \<lparr>cursor = \<lparr>docs = scenario_docs, calls = [call_more]\<rparr>,
      sample_block = scenario_block, max_block_size = 2,
      types = [UInt32, String, Date], names = [''id'', ''name'', ''joined'']\<rparr>"



text \<open>A source whose only document holds the string \<open>"42"\<close> where a number is expected.\<close>

definition string_id_stream :: MongoDBBlockInputStream where
  "string_id_stream =
     \<lparr>cursor = \<lparr>docs = [[(''id'', eoo_element\<lparr>type_e := mongo_String, String_e := ''42''\<rparr>)]],
                calls = [call_more]\<rparr>,
      sample_block = [\<lparr>column = ColumnUInt32 [], type = DataTypeUInt32, name = ''id''\<rparr>],
      max_block_size = 1, types = [UInt32], names = [''id'']\<rparr>"

section \<open>Properties\<close>

subsection \<open>Seconds and narrowing\<close>






lemma unat_of_nat_16: "unat (of_nat d :: 16 word) = d mod 2 ^ 16"
  by (simp add: unat_of_nat)

subsection \<open>One row, and the loop over the documents\<close>

lemma insert_fields_gen:
  "insert_fields toDayNum ns ts row idxs cols = Inr cols' \<Longrightarrow> distinct idxs \<Longrightarrow>
     length cols' = length cols \<and> (\<forall>i. i \<notin> set idxs \<longrightarrow> cols' ! i = cols ! i)
     \<and> (\<forall>i\<in>set idxs. i < length cols \<and> i < length ns \<and> i < length ts \<and> field_step toDayNum ns ts row i (cols ! i) = Inr (cols' ! i))"
proof (induction idxs arbitrary: cols)
  case Nil
  then show ?case by simp
next
  case (Cons idx rest)
  from Cons.prems(1) have rng: "idx < length ns" "idx < length ts" "idx < length cols"
    by (auto split: if_splits)
  from Cons.prems(1) rng obtain col where
    st: "field_step toDayNum ns ts row idx (cols ! idx) = Inr col" and
    rec: "insert_fields toDayNum ns ts row rest (cols[idx := col]) = Inr cols'"
    by (auto simp: field_step_def Let_def split: sum.splits if_splits)
  from Cons.prems(2) have d: "distinct rest" "idx \<notin> set rest" by auto
  note IH = Cons.IH [OF rec d(1)]
  from IH have len: "length cols' = length cols" by simp
  have keep: "\<forall>i. i \<notin> set (idx # rest) \<longrightarrow> cols' ! i = cols ! i"
    using IH by auto
  have at_idx: "cols' ! idx = col"
    using IH d(2) rng by auto
  have others: "\<forall>i\<in>set rest. i < length cols \<and> i < length ns \<and> i < length ts \<and> field_step toDayNum ns ts row i (cols ! i) = Inr (cols' ! i)"
  proof
    fix i assume i: "i \<in> set rest"
    then have "i \<noteq> idx" using d(2) by auto
    then show "i < length cols \<and> i < length ns \<and> i < length ts \<and> field_step toDayNum ns ts row i (cols ! i) = Inr (cols' ! i)"
      using IH i by auto
  qed
  show ?case using len keep at_idx others st rng by auto
qed


lemma size_col_cells: "size_col col = length (cells col)"
  by (cases col) simp_all

lemma column_of_kind_class:
  "cloneEmpty_col col' = cloneEmpty_col col \<Longrightarrow> column_of_kind t col' = column_of_kind t col"
  by (cases t; cases col; cases col'; simp)

lemma insertValue_cells:
  "insertValue toDayNum col t v = Inr col' \<Longrightarrow>
     \<exists>x. cells col' = cells col @ [x] \<and> cloneEmpty_col col' = cloneEmpty_col col"
  by (cases t; cases col; auto split: if_splits sum.splits)

lemma insertDefaultValue_cells:
  "insertDefaultValue col t = Inr col' \<Longrightarrow>
     \<exists>x. cells col' = cells col @ [x] \<and> cloneEmpty_col col' = cloneEmpty_col col
        \<and> is_zero x \<and> column_of_kind t col'"
  by (cases t; cases col; auto)

lemma field_step_cells:
  assumes "field_step toDayNum ns ts row idx col = Inr col'"
  shows "\<exists>x. cells col' = cells col @ [x] \<and> cloneEmpty_col col' = cloneEmpty_col col
        \<and> (\<not> ok (getField row (ns ! idx)) \<longrightarrow> is_zero x \<and> column_of_kind (ts ! idx) col')"
proof (cases "ok (getField row (ns ! idx))")
  case True
  with assms have "insertValue toDayNum col (ts ! idx) (getField row (ns ! idx)) = Inr col'"
    by (simp add: field_step_def)
  from insertValue_cells [OF this] True show ?thesis by auto
next
  case False
  with assms have "insertDefaultValue col (ts ! idx) = Inr col'"
    by (simp add: field_step_def)
  from insertDefaultValue_cells [OF this] show ?thesis by auto
qed

lemma grown_refl: "grown toDayNum ns ts [] cols cols"
  by (simp add: grown_def grown_at_def)

lemma grown_row:
  assumes "insert_fields toDayNum ns ts row [0..<length cols] cols = Inr cols'"
  shows "grown toDayNum ns ts [row] cols cols'"
proof -
  from insert_fields_gen [OF assms] have
    len: "length cols' = length cols" and
    st: "\<forall>i<length cols. field_step toDayNum ns ts row i (cols ! i) = Inr (cols' ! i)"
    by auto
  have "grown_at toDayNum ns ts [row] idx (cols ! idx) (cols' ! idx)" if "idx < length cols" for idx
  proof -
    from that st have fs: "field_step toDayNum ns ts row idx (cols ! idx) = Inr (cols' ! idx)" by simp
    from field_step_cells [OF fs] obtain x where
      x: "cells (cols' ! idx) = cells (cols ! idx) @ [x]"
         "cloneEmpty_col (cols' ! idx) = cloneEmpty_col (cols ! idx)"
         "\<not> ok (getField row (ns ! idx)) \<longrightarrow> is_zero x \<and> column_of_kind (ts ! idx) (cols' ! idx)"
      by blast
    have "\<exists>a a'. field_step toDayNum ns ts row idx a = Inr a'" using fs by blast
    with x show ?thesis
      unfolding grown_at_def by (intro exI [of _ "[x]"]) simp
  qed
  with len show ?thesis by (simp add: grown_def)
qed

lemma grown_at_trans:
  assumes a: "grown_at toDayNum ns ts rows1 idx col col1" and b: "grown_at toDayNum ns ts rows2 idx col1 col2"
  shows "grown_at toDayNum ns ts (rows1 @ rows2) idx col col2"
proof -
  from a obtain xs where
    xs: "cells col1 = cells col @ xs" "length xs = length rows1"
        "cloneEmpty_col col1 = cloneEmpty_col col"
        "\<forall>j<length rows1. (\<exists>a a'. field_step toDayNum ns ts (rows1 ! j) idx a = Inr a') \<and>
            (\<not> ok (getField (rows1 ! j) (ns ! idx)) \<longrightarrow>
              is_zero (xs ! j) \<and> column_of_kind (ts ! idx) col1)"
    unfolding grown_at_def by blast
  from b obtain ys where
    ys: "cells col2 = cells col1 @ ys" "length ys = length rows2"
        "cloneEmpty_col col2 = cloneEmpty_col col1"
        "\<forall>j<length rows2. (\<exists>a a'. field_step toDayNum ns ts (rows2 ! j) idx a = Inr a') \<and>
            (\<not> ok (getField (rows2 ! j) (ns ! idx)) \<longrightarrow>
              is_zero (ys ! j) \<and> column_of_kind (ts ! idx) col2)"
    unfolding grown_at_def by blast
  have kind: "column_of_kind (ts ! idx) col2 = column_of_kind (ts ! idx) col1"
    by (rule column_of_kind_class) (rule ys(3))
  have each: "(\<exists>a a'. field_step toDayNum ns ts ((rows1 @ rows2) ! j) idx a = Inr a') \<and>
            (\<not> ok (getField ((rows1 @ rows2) ! j) (ns ! idx)) \<longrightarrow>
              is_zero ((xs @ ys) ! j) \<and> column_of_kind (ts ! idx) col2)"
    if j: "j < length (rows1 @ rows2)" for j
  proof (cases "j < length rows1")
    case True
    with xs(4) xs(2) kind show ?thesis by (simp add: nth_append)
  next
    case False
    with j have "j - length rows1 < length rows2" by simp
    with ys(4) False xs(2) show ?thesis by (simp add: nth_append)
  qed
  show ?thesis
    unfolding grown_at_def
    using xs(1-3) ys(1-3) each by (intro exI [of _ "xs @ ys"]) simp
qed

lemma grown_trans:
  assumes a: "grown toDayNum ns ts rows1 cols cols1" and b: "grown toDayNum ns ts rows2 cols1 cols2"
  shows "grown toDayNum ns ts (rows1 @ rows2) cols cols2"
  using a b grown_at_trans unfolding grown_def by fastforce

lemma rows_taken_0: "rows_taken n r 0 = 0"
  by (simp add: rows_taken_def)

lemma rows_taken_last: "Suc r = n \<Longrightarrow> rows_taken n r (Suc k) = 1"
  by (auto simp: rows_taken_def)

lemma rows_taken_Suc: "Suc r \<noteq> n \<Longrightarrow> rows_taken n r (Suc k) = Suc (rows_taken n (Suc r) k)"
  by (auto simp: rows_taken_def)

lemma read_loop_grown:
  "read_loop toDayNum ns ts n sz c cols r = (Inr cols', c') \<Longrightarrow> sz = length cols \<Longrightarrow>
     grown toDayNum ns ts (take (rows_taken n r (length (docs c))) (docs c)) cols cols'
     \<and> docs c' = drop (rows_taken n r (length (docs c))) (docs c)"
proof (induction toDayNum ns ts n sz c cols r rule: read_loop.induct)
  case (1 toDayNum ns ts max_sz sz c columns num_rows)
  show ?case
  proof (cases "docs c")
    case Nil
    with "1.prems" have "cols' = columns" "docs c' = []"
      by (auto simp: read_loop.simps [of _ ns ts max_sz _ c] cursor_more_def)
    with Nil show ?thesis by (simp add: rows_taken_0 grown_refl)
  next
    case (Cons row rest)
    define c1 where "c1 = c\<lparr>calls := calls c @ [call_more]\<rparr>"
    define c2 where "c2 = c1\<lparr>docs := rest, calls := calls c1 @ [call_next]\<rparr>"
    have m: "cursor_more c = (True, c1)"
      using Cons by (simp add: cursor_more_def c1_def)
    have nx: "cursor_next c1 = (Inr row, c2)"
      using Cons by (simp add: cursor_next_def c1_def c2_def)
    have rest: "docs c2 = rest" by (simp add: c2_def)
    from "1.prems"(1) m nx obtain columns1 where
      ins: "insert_fields toDayNum ns ts row [0..<sz] columns = Inr columns1"
      by (auto simp: read_loop.simps [of _ ns ts max_sz _ c] split: sum.splits)
    from ins "1.prems"(2) have g1: "grown toDayNum ns ts [row] columns columns1"
      using grown_row by simp
    then have len1: "sz = length columns1" using "1.prems"(2) by (simp add: grown_def)
    show ?thesis
    proof (cases "num_rows + 1 = max_sz")
      case True
      with "1.prems"(1) m nx ins have "cols' = columns1" "c' = c2"
        by (auto simp: read_loop.simps [of _ ns ts max_sz _ c])
      moreover from True have "rows_taken max_sz num_rows (length (docs c)) = 1"
        using Cons by (simp add: rows_taken_last)
      ultimately show ?thesis using g1 Cons rest by simp
    next
      case False
      with "1.prems"(1) m nx ins have
        rec: "read_loop toDayNum ns ts max_sz sz c2 columns1 (num_rows + 1) = (Inr cols', c')"
        by (auto simp: read_loop.simps [of _ ns ts max_sz _ c])
      have IH: "grown toDayNum ns ts (take (rows_taken max_sz (num_rows + 1) (length (docs c2))) (docs c2)) columns1 cols'
         \<and> docs c' = drop (rows_taken max_sz (num_rows + 1) (length (docs c2))) (docs c2)"
        using "1.IH" [OF m [symmetric] _ nx [symmetric] _ ins False rec len1] by simp
      from False have rt: "rows_taken max_sz num_rows (length (docs c))
          = Suc (rows_taken max_sz (Suc num_rows) (length rest))"
        using Cons by (simp add: rows_taken_Suc)
      from IH rest have g2: "grown toDayNum ns ts (take (rows_taken max_sz (Suc num_rows) (length rest)) rest) columns1 cols'"
        and d2: "docs c' = drop (rows_taken max_sz (Suc num_rows) (length rest)) rest"
        by simp_all
      from grown_trans [OF g1 g2] have
        "grown toDayNum ns ts (row # take (rows_taken max_sz (Suc num_rows) (length rest)) rest) columns cols'"
        by simp
      then show ?thesis using rt d2 Cons by simp
    qed
  qed
qed

subsection \<open>One call of readImpl\<close>

lemma readImpl_exhausted:
  "docs (cursor s) = [] \<Longrightarrow>
     readImpl toDayNum s = (Inr [], s\<lparr>cursor := (cursor s)\<lparr>calls := calls (cursor s) @ [call_more]\<rparr>\<rparr>)"
  by (simp add: readImpl_def cursor_more_def)

lemma cells_cloneEmpty_col: "cells (cloneEmpty_col col) = []"
  by (cases col) simp_all

lemma readImpl_rows:
  assumes r: "readImpl toDayNum s = (Inr b, s')" and ne: "docs (cursor s) \<noteq> []"
  shows "length b = length (sample_block s)
     \<and> grown toDayNum (names s) (types s)
         (take (rows_taken (max_block_size s) 0 (length (docs (cursor s)))) (docs (cursor s)))
         (map column (cloneEmpty (sample_block s))) (map column b)
     \<and> docs (cursor s') = drop (rows_taken (max_block_size s) 0 (length (docs (cursor s)))) (docs (cursor s))
     \<and> sample_block s' = sample_block s \<and> max_block_size s' = max_block_size s
     \<and> names s' = names s \<and> types s' = types s"
proof -
  define c where "c = (cursor s)\<lparr>calls := calls (cursor s) @ [call_more]\<rparr>"
  define block where "block = cloneEmpty (sample_block s)"
  have m: "cursor_more (cursor s) = (True, c)"
    using ne by (simp add: cursor_more_def c_def)
  have dc: "docs c = docs (cursor s)" by (simp add: c_def)
  from r m obtain columns' c' where
    loop: "read_loop toDayNum (names s) (types s) (max_block_size s) (length (map column block)) c (map column block) 0
             = (Inr columns', c')" and
    b: "b = map2 (\<lambda>elem col. elem\<lparr>column := col\<rparr>) block columns'" and
    s': "s' = s\<lparr>cursor := c'\<rparr>"
    by (auto simp: readImpl_def Let_def block_def split: prod.splits sum.splits)
  from read_loop_grown [OF loop refl] dc have
    g: "grown toDayNum (names s) (types s)
         (take (rows_taken (max_block_size s) 0 (length (docs (cursor s)))) (docs (cursor s)))
         (map column block) columns'" and
    d: "docs c' = drop (rows_taken (max_block_size s) 0 (length (docs (cursor s)))) (docs (cursor s))"
    by simp_all
  from g have len: "length columns' = length block" by (simp add: grown_def)
  have cols: "map column b = columns'"
    unfolding b using len by (induction block columns' rule: list_induct2') simp_all
  have lb: "length b = length (sample_block s)"
    unfolding b using len by (simp add: block_def cloneEmpty_def)
  show ?thesis using lb g d cols s' by (simp add: block_def)
qed

lemma bind_columns_unsupported:
  "i < length sample \<Longrightarrow> value_type_of (type (sample ! i)) = None \<Longrightarrow>
   \<forall>j<i. value_type_of (type (sample ! j)) \<noteq> None \<Longrightarrow>
   bind_columns sample ts ns
     = Inl (Exception (''Unsupported type '' @ getName (type (sample ! i))) UNKNOWN_TYPE)"
proof (induction sample arbitrary: i ts ns)
  case Nil
  then show ?case by simp
next
  case (Cons col rest)
  show ?case
  proof (cases i)
    case 0
    with Cons.prems show ?thesis by simp
  next
    case (Suc i')
    from Cons.prems(3) Suc have "value_type_of (type col) \<noteq> None" by auto
    then obtain t where t: "value_type_of (type col) = Some t" by auto
    have "\<forall>j<i'. value_type_of (type (rest ! j)) \<noteq> None"
      using Cons.prems(3) Suc by auto
    with Cons.IH [of i'] Cons.prems(1,2) Suc t show ?thesis by simp
  qed
qed

lemma reads_exhausted:
  "docs (cursor s) = [] \<Longrightarrow>
     reads toDayNum m s = (Inr (replicate m []),
        s\<lparr>cursor := (cursor s)\<lparr>calls := calls (cursor s) @ replicate m call_more\<rparr>\<rparr>)"
proof (induction m arbitrary: s)
  case 0
  then show ?case by simp
next
  case (Suc m)
  let ?s' = "s\<lparr>cursor := (cursor s)\<lparr>calls := calls (cursor s) @ [call_more]\<rparr>\<rparr>"
  have r: "readImpl toDayNum s = (Inr [], ?s')" using Suc.prems by (rule readImpl_exhausted)
  have "docs (cursor ?s') = []" using Suc.prems by simp
  from Suc.IH [OF this] r show ?case
    by (simp add: replicate_app_Cons_same)
qed

lemma readImpl_cells:
  assumes r: "readImpl toDayNum s = (Inr b, s')" and ne: "docs (cursor s) \<noteq> []" and idx: "idx < length b"
  shows "length (cells (column (b ! idx))) = rows_taken (max_block_size s) 0 (length (docs (cursor s)))"
    and "\<forall>j<rows_taken (max_block_size s) 0 (length (docs (cursor s))).
           (\<exists>a a'. field_step toDayNum (names s) (types s) (docs (cursor s) ! j) idx a = Inr a') \<and>
           (\<not> ok (getField (docs (cursor s) ! j) (names s ! idx)) \<longrightarrow>
              is_zero (cells (column (b ! idx)) ! j) \<and> column_of_kind (types s ! idx) (column (b ! idx)))"
proof -
  let ?m = "rows_taken (max_block_size s) 0 (length (docs (cursor s)))"
  from readImpl_rows [OF r ne] have
    lb: "length b = length (sample_block s)" and
    g: "grown toDayNum (names s) (types s) (take ?m (docs (cursor s)))
          (map column (cloneEmpty (sample_block s))) (map column b)"
    by simp_all
  have mk: "?m \<le> length (docs (cursor s))" by (simp add: rows_taken_def)
  from idx lb have i2: "idx < length (map column (cloneEmpty (sample_block s)))"
    by (simp add: cloneEmpty_def)
  from g i2 have "grown_at toDayNum (names s) (types s) (take ?m (docs (cursor s))) idx
     (map column (cloneEmpty (sample_block s)) ! idx) (map column b ! idx)"
    unfolding grown_def by blast
  moreover have "map column b ! idx = column (b ! idx)" using idx by simp
  ultimately have ga: "grown_at toDayNum (names s) (types s) (take ?m (docs (cursor s))) idx
     (map column (cloneEmpty (sample_block s)) ! idx) (column (b ! idx))"
    by simp
  have init: "cells (map column (cloneEmpty (sample_block s)) ! idx) = []"
    using idx lb by (simp add: cloneEmpty_def cells_cloneEmpty_col)
  from ga init idx mk obtain xs where
    xs: "cells (column (b ! idx)) = xs" "length xs = ?m"
      "\<forall>j<?m. (\<exists>a a'. field_step toDayNum (names s) (types s) (take ?m (docs (cursor s)) ! j) idx a = Inr a') \<and>
            (\<not> ok (getField (take ?m (docs (cursor s)) ! j) (names s ! idx)) \<longrightarrow>
               is_zero (xs ! j) \<and> column_of_kind (types s ! idx) (column (b ! idx)))"
    unfolding grown_at_def by (auto simp: min_absorb2)
  show "length (cells (column (b ! idx))) = ?m" using xs by simp
  show "\<forall>j<?m. (\<exists>a a'. field_step toDayNum (names s) (types s) (docs (cursor s) ! j) idx a = Inr a') \<and>
           (\<not> ok (getField (docs (cursor s) ! j) (names s ! idx)) \<longrightarrow>
              is_zero (cells (column (b ! idx)) ! j) \<and> column_of_kind (types s ! idx) (column (b ! idx)))"
    using xs by simp
qed

subsection \<open>Counting batches\<close>

lemma ceil_pos:
  assumes "0 < n" and "0 < k"
  shows "(k + n - 1) div n = Suc ((k - 1) div (n::nat))"
proof -
  have e: "k + n - 1 = (k - 1) + n" using assms by arith
  have "((k - 1) + n) div n = (k - 1) div n + 1"
    using assms(1) by (simp add: div_add_self2)
  with e show ?thesis by simp
qed

lemma ceil_small:
  assumes "0 < n" and "0 < k" and "k \<le> n"
  shows "(k + n - 1) div n = Suc 0"
proof -
  have "k - 1 < n" using assms by arith
  then have "(k - 1) div n = 0" by simp
  with ceil_pos [OF assms(1,2)] show ?thesis by simp
qed

lemma ceil_large:
  assumes "0 < n" and "n < k"
  shows "(k + n - 1) div n = Suc ((k - n + n - 1) div n)"
proof -
  have k: "0 < k" "0 < k - n" using assms by arith+
  have a: "(k + n - 1) div n = Suc ((k - 1) div n)" using ceil_pos [OF assms(1) k(1)] .
  have "n \<le> k - 1" using assms by arith
  then have b: "(k - 1) div n = Suc ((k - 1 - n) div n)" using assms(1) by (simp add: le_div_geq)
  have c: "(k - n + n - 1) div n = Suc ((k - n - 1) div n)" using ceil_pos [OF assms(1) k(2)] .
  have d: "k - 1 - n = k - n - 1" by arith
  from a b c d show ?thesis by simp
qed

lemma mod_large: "n < k \<Longrightarrow> (k - n) mod n = k mod (n::nat)"
  by (simp add: le_mod_geq)

lemma readImpl_shape:
  assumes r: "readImpl toDayNum s = (Inr b, s')" and ne: "docs (cursor s) \<noteq> []" and n: "0 < max_block_size s"
  shows "length b = length (sample_block s)
     \<and> (\<forall>e\<in>set b. size_col (column e) = min (max_block_size s) (length (docs (cursor s))))"
proof -
  from readImpl_rows [OF r ne] have lb: "length b = length (sample_block s)" by simp
  have rt: "rows_taken (max_block_size s) 0 (length (docs (cursor s)))
     = min (max_block_size s) (length (docs (cursor s)))"
    using n by (simp add: rows_taken_def)
  have "size_col (column e) = min (max_block_size s) (length (docs (cursor s)))" if "e \<in> set b" for e
  proof -
    from that obtain idx where "idx < length b" "e = b ! idx" by (auto simp: in_set_conv_nth)
    with readImpl_cells(1) [OF r ne, of idx] rt show ?thesis by (simp add: size_col_cells)
  qed
  with lb show ?thesis by simp
qed

lemma ceil_rest:
  assumes "0 < n" and "0 < k" and "Suc q = (k + n - 1) div n"
  shows "q = (k - min n k + n - 1) div n"
proof (cases "k \<le> n")
  case True
  with ceil_small [OF assms(1,2)] assms(3) have "q = 0" by simp
  moreover from True have "k - min n k = 0" by simp
  ultimately show ?thesis using assms(1) by simp
next
  case False
  then have "n < k" by simp
  from ceil_large [OF assms(1) this] assms(3) \<open>n < k\<close> show ?thesis by simp
qed

lemma first_batch_rows:
  assumes "0 < n" and "0 < k" and "Suc q = (k + n - 1) div n"
  shows "min n k = (if Suc 0 < Suc q then n else if k mod n = 0 then n else k mod n)"
proof (cases "k \<le> n")
  case True
  with ceil_small [OF assms(1,2)] assms(3) have "q = 0" by simp
  with True assms(2) show ?thesis by (cases "k = n") simp_all
next
  case False
  then have "n < k" by simp
  have "0 < k - n" using \<open>n < k\<close> by simp
  from ceil_pos [OF assms(1) this] ceil_large [OF assms(1) \<open>n < k\<close>] assms(3)
  have "0 < q" by simp
  with \<open>n < k\<close> show ?thesis by simp
qed

lemma later_batch_rows:
  assumes "0 < n" and "0 < k" and "Suc q = (k + n - 1) div n" and "i < q"
  shows "(if Suc i < q then n else if (k - min n k) mod n = 0 then n else (k - min n k) mod n)
       = (if Suc (Suc i) < Suc q then n else if k mod n = 0 then n else k mod n)"
proof -
  have "n < k"
  proof (rule ccontr)
    assume "\<not> n < k"
    then have "k \<le> n" by simp
    with ceil_small [OF assms(1,2)] assms(3,4) show False by simp
  qed
  then have "(k - min n k) mod n = k mod n" by (simp add: mod_large)
  then show ?thesis by simp
qed

lemma reads_batches:
  assumes n: "0 < n"
  shows "max_block_size s = n \<Longrightarrow> length (docs (cursor s)) = k \<Longrightarrow> q = (k + n - 1) div n \<Longrightarrow>
     reads toDayNum (Suc q) s = (Inr bs, s'') \<Longrightarrow>
       length bs = Suc q
     \<and> (\<forall>i<q. length (bs ! i) = length (sample_block s)
           \<and> (\<forall>e\<in>set (bs ! i). size_col (column e)
                 = (if Suc i < q then n else if k mod n = 0 then n else k mod n)))
     \<and> bs ! q = [] \<and> docs (cursor s'') = []"
proof (induction q arbitrary: s k bs)
  case 0
  have "k = 0"
  proof (rule ccontr)
    assume "k \<noteq> 0"
    then have "0 < k" by simp
    from ceil_pos [OF n this] "0.prems"(3) show False by simp
  qed
  with "0.prems"(2) have d: "docs (cursor s) = []" by simp
  have "reads toDayNum (Suc 0) s
     = (Inr [[]], s\<lparr>cursor := (cursor s)\<lparr>calls := calls (cursor s) @ [call_more]\<rparr>\<rparr>)"
    using reads_exhausted [OF d, of _ "Suc 0"] by simp
  with "0.prems"(4) have "bs = [[]]"
    and "s'' = s\<lparr>cursor := (cursor s)\<lparr>calls := calls (cursor s) @ [call_more]\<rparr>\<rparr>"
    by simp_all
  with d show ?case by simp
next
  case (Suc q)
  have kpos: "0 < k"
  proof (rule ccontr)
    assume "\<not> 0 < k"
    with "Suc.prems"(3) n show False by simp
  qed
  then have ne: "docs (cursor s) \<noteq> []" using "Suc.prems"(2) by auto
  from "Suc.prems"(4) obtain b s1 bs1 where
    r: "readImpl toDayNum s = (Inr b, s1)" and rs: "reads toDayNum (Suc q) s1 = (Inr bs1, s'')" and bs: "bs = b # bs1"
    by (auto simp: reads.simps(2) [of _ "Suc q"] split: prod.splits sum.splits)
  from readImpl_rows [OF r ne] "Suc.prems"(1,2) n have
    d1: "length (docs (cursor s1)) = k - min n k" and
    sb: "sample_block s1 = sample_block s" and mb: "max_block_size s1 = n"
    by (simp_all add: rows_taken_def)
  from readImpl_shape [OF r ne] "Suc.prems"(1,2) n have
    lb: "length b = length (sample_block s)" and
    szb: "\<forall>e\<in>set b. size_col (column e) = min n k"
    by simp_all
  have q: "q = (k - min n k + n - 1) div n"
    using ceil_rest [OF n kpos "Suc.prems"(3)] .
  note IH = Suc.IH [OF mb d1 q rs]
  have first: "min n k = (if Suc 0 < Suc q then n else if k mod n = 0 then n else k mod n)"
    using first_batch_rows [OF n kpos "Suc.prems"(3)] .
  have each: "length (bs ! i) = length (sample_block s)
           \<and> (\<forall>e\<in>set (bs ! i). size_col (column e)
                 = (if Suc i < Suc q then n else if k mod n = 0 then n else k mod n))"
    if i: "i < Suc q" for i
  proof (cases i)
    case 0
    with bs lb szb first show ?thesis by simp
  next
    case (Suc i')
    with i have i': "i' < q" by simp
    from IH i' have "length (bs1 ! i') = length (sample_block s1)
       \<and> (\<forall>e\<in>set (bs1 ! i'). size_col (column e)
             = (if Suc i' < q then n else if (k - min n k) mod n = 0 then n else (k - min n k) mod n))"
      by blast
    with later_batch_rows [OF n kpos "Suc.prems"(3) i'] Suc bs sb show ?thesis by simp
  qed
  from IH bs each show ?case by simp
qed

subsection \<open>Documents that fit: the reads succeed\<close>

lemma cloneEmpty_col_idem: "cloneEmpty_col (cloneEmpty_col col) = cloneEmpty_col col"
  by (cases col) simp_all

lemma insertValue_class_only:
  "(\<exists>a'. insertValue toDayNum a t v = Inr a') = (\<exists>c. insertValue toDayNum (cloneEmpty_col a) t v = Inr c)"
  by (cases t; cases a; simp split: sum.splits)

lemma insertDefaultValue_class_only:
  "(\<exists>a'. insertDefaultValue a t = Inr a') = (\<exists>c. insertDefaultValue (cloneEmpty_col a) t = Inr c)"
  by (cases t; cases a; simp)

lemma field_step_class_only:
  "(\<exists>a'. field_step toDayNum ns ts row idx a = Inr a')
     = (\<exists>c. field_step toDayNum ns ts row idx (cloneEmpty_col a) = Inr c)"
  unfolding field_step_def
  using insertValue_class_only insertDefaultValue_class_only by simp

lemma insert_fields_succeeds:
  "distinct idxs \<Longrightarrow>
   \<forall>i\<in>set idxs. i < length cols \<and> i < length ns \<and> i < length ts
      \<and> (\<exists>c'. field_step toDayNum ns ts row i (cols ! i) = Inr c') \<Longrightarrow>
   \<exists>cols'. insert_fields toDayNum ns ts row idxs cols = Inr cols'"
proof (induction idxs arbitrary: cols)
  case Nil
  then show ?case by simp
next
  case (Cons idx rest)
  from Cons.prems(2) obtain c' where
    rng: "idx < length cols" "idx < length ns" "idx < length ts" and
    st: "field_step toDayNum ns ts row idx (cols ! idx) = Inr c'"
    by auto
  from Cons.prems(1) have d: "distinct rest" "idx \<notin> set rest" by auto
  have "\<forall>i\<in>set rest. i < length (cols[idx := c']) \<and> i < length ns \<and> i < length ts
      \<and> (\<exists>c''. field_step toDayNum ns ts row i (cols[idx := c'] ! i) = Inr c'')"
  proof
    fix i assume i: "i \<in> set rest"
    with d(2) have "i \<noteq> idx" by auto
    with Cons.prems(2) i show "i < length (cols[idx := c']) \<and> i < length ns \<and> i < length ts
      \<and> (\<exists>c''. field_step toDayNum ns ts row i (cols[idx := c'] ! i) = Inr c'')"
      by auto
  qed
  from Cons.IH [OF d(1) this] obtain cols' where
    "insert_fields toDayNum ns ts row rest (cols[idx := c']) = Inr cols'" by blast
  with rng st show ?case by (simp add: field_step_def Let_def)
qed

lemma row_fits_insert:
  assumes "row_fits toDayNum ns ts cols row"
  shows "\<exists>cols'. insert_fields toDayNum ns ts row [0..<length cols] cols = Inr cols'"
proof (rule insert_fields_succeeds)
  show "distinct [0..<length cols]" by simp
  show "\<forall>i\<in>set [0..<length cols]. i < length cols \<and> i < length ns \<and> i < length ts
      \<and> (\<exists>c'. field_step toDayNum ns ts row i (cols ! i) = Inr c')"
  proof
    fix i assume "i \<in> set [0..<length cols]"
    then have i: "i < length cols" by simp
    with assms have "i < length ns" "i < length ts"
      and "\<exists>c. field_step toDayNum ns ts row i (cloneEmpty_col (cols ! i)) = Inr c"
      by (simp_all add: row_fits_def)
    with i field_step_class_only [of toDayNum ns ts row i "cols ! i"]
    show "i < length cols \<and> i < length ns \<and> i < length ts
      \<and> (\<exists>c'. field_step toDayNum ns ts row i (cols ! i) = Inr c')"
      by simp
  qed
qed

lemma row_fits_grown:
  assumes "grown toDayNum ns ts rows cols cols1"
  shows "row_fits toDayNum ns ts cols1 row = row_fits toDayNum ns ts cols row"
proof -
  from assms have len: "length cols1 = length cols"
    and cls: "\<forall>idx<length cols. cloneEmpty_col (cols1 ! idx) = cloneEmpty_col (cols ! idx)"
    by (auto simp: grown_def grown_at_def)
  then show ?thesis by (simp add: row_fits_def)
qed

lemma read_loop_succeeds:
  "\<forall>row\<in>set (docs c). row_fits toDayNum ns ts cols row \<Longrightarrow> sz = length cols \<Longrightarrow>
     \<exists>cols' c'. read_loop toDayNum ns ts n sz c cols r = (Inr cols', c')"
proof (induction toDayNum ns ts n sz c cols r rule: read_loop.induct)
  case (1 toDayNum ns ts max_sz sz c columns num_rows)
  show ?case
  proof (cases "docs c")
    case Nil
    then show ?thesis
      by (simp add: read_loop.simps [of _ ns ts max_sz _ c] cursor_more_def)
  next
    case (Cons row rest)
    define c1 where "c1 = c\<lparr>calls := calls c @ [call_more]\<rparr>"
    define c2 where "c2 = c1\<lparr>docs := rest, calls := calls c1 @ [call_next]\<rparr>"
    have m: "cursor_more c = (True, c1)"
      using Cons by (simp add: cursor_more_def c1_def)
    have nx: "cursor_next c1 = (Inr row, c2)"
      using Cons by (simp add: cursor_next_def c1_def c2_def)
    have rest: "docs c2 = rest" by (simp add: c2_def)
    from "1.prems"(1) Cons have fit: "row_fits toDayNum ns ts columns row" by simp
    from row_fits_insert [OF fit] "1.prems"(2) obtain columns1 where
      ins: "insert_fields toDayNum ns ts row [0..<sz] columns = Inr columns1" by auto
    show ?thesis
    proof (cases "num_rows + 1 = max_sz")
      case True
      with m nx ins show ?thesis
        by (simp add: read_loop.simps [of _ ns ts max_sz _ c])
    next
      case False
      from ins "1.prems"(2) have g1: "grown toDayNum ns ts [row] columns columns1"
        using grown_row by simp
      then have len1: "sz = length columns1" using "1.prems"(2) by (simp add: grown_def)
      have fits1: "\<forall>row\<in>set (docs c2). row_fits toDayNum ns ts columns1 row"
        using "1.prems"(1) Cons rest row_fits_grown [OF g1] by simp
      from "1.IH" [OF m [symmetric] _ nx [symmetric] _ ins False fits1 len1]
      obtain cols' c' where
        "read_loop toDayNum ns ts max_sz sz c2 columns1 (num_rows + 1) = (Inr cols', c')" by auto
      with m nx ins False show ?thesis
        by (simp add: read_loop.simps [of _ ns ts max_sz _ c])
    qed
  qed
qed

lemma readImpl_succeeds:
  assumes "\<forall>row\<in>set (docs (cursor s)). row_fits toDayNum (names s) (types s) (map column (sample_block s)) row"
  shows "\<exists>b s'. readImpl toDayNum s = (Inr b, s')"
proof (cases "docs (cursor s) = []")
  case True
  then show ?thesis by (simp add: readImpl_exhausted)
next
  case False
  define c where "c = (cursor s)\<lparr>calls := calls (cursor s) @ [call_more]\<rparr>"
  define columns where "columns = map column (cloneEmpty (sample_block s))"
  have m: "cursor_more (cursor s) = (True, c)"
    using False by (simp add: cursor_more_def c_def)
  have fit: "row_fits toDayNum (names s) (types s) columns row
     = row_fits toDayNum (names s) (types s) (map column (sample_block s)) row" for row
    by (simp add: row_fits_def columns_def cloneEmpty_def cloneEmpty_col_idem)
  have "\<forall>row\<in>set (docs c). row_fits toDayNum (names s) (types s) columns row"
    using assms fit by (simp add: c_def)
  from read_loop_succeeds [OF this refl, of "max_block_size s" 0] obtain cols' c' where
    "read_loop toDayNum (names s) (types s) (max_block_size s) (length columns) c columns 0 = (Inr cols', c')"
    by blast
  with m show ?thesis by (simp add: readImpl_def Let_def columns_def)
qed

lemma reads_succeeds:
  "\<forall>row\<in>set (docs (cursor s)). row_fits toDayNum (names s) (types s) (map column (sample_block s)) row \<Longrightarrow>
     \<exists>bs s'. reads toDayNum m s = (Inr bs, s')"
proof (induction m arbitrary: s)
  case 0
  then show ?case by simp
next
  case (Suc m)
  from readImpl_succeeds [OF Suc.prems] obtain b s1 where r: "readImpl toDayNum s = (Inr b, s1)" by blast
  have keep: "names s1 = names s \<and> types s1 = types s \<and> sample_block s1 = sample_block s
     \<and> set (docs (cursor s1)) \<subseteq> set (docs (cursor s))"
  proof (cases "docs (cursor s) = []")
    case True
    with r show ?thesis by (auto simp: readImpl_exhausted)
  next
    case False
    from readImpl_rows [OF r False] show ?thesis by (auto dest: in_set_dropD)
  qed
  then have "\<forall>row\<in>set (docs (cursor s1)).
      row_fits toDayNum (names s1) (types s1) (map column (sample_block s1)) row"
    using Suc.prems by auto
  from Suc.IH [OF this] obtain bs s2 where "reads toDayNum m s1 = (Inr bs, s2)" by blast
  with r show ?case by simp
qed

subsection \<open>Defaults always go in\<close>




section \<open>The claims\<close>


text \<open>
  C1, as stated, fails: a source whose records do not all coerce produces no batch.
  The stream over the single document \<open>{id: "42"}\<close> with the schema \<open>id UInt32\<close> and
  block size 1 is the one the constructor builds, and its first read throws
  \<^verbatim>\<open>TYPE_MISMATCH\<close> instead of returning the one batch of one row.
\<close>

theorem mismatching_source_produces_no_batch:
  "new_MongoDBBlockInputStream
      \<lparr>docs = [[(''id'', eoo_element\<lparr>type_e := mongo_String, String_e := ''42''\<rparr>)]], calls = []\<rparr>
      [\<lparr>column = ColumnUInt32 [], type = DataTypeUInt32, name = ''id''\<rparr>] 1
     = Inr string_id_stream
   \<and> fst (reads example_toDayNum 1 string_id_stream)
     = Inl (Exception ''Type mismatch, expected a number, got String'' TYPE_MISMATCH)"
  by (simp add: new_MongoDBBlockInputStream_def value_type_of_def string_id_stream_def
       readImpl_def read_loop.simps cursor_more_def cursor_next_def cloneEmpty_def
       getField_def ok_def eoo_element_def isNumber_def)

text \<open>
  C1, amended. For a source with exactly \<open>k\<close> records, each of which fits the schema (no
  coercion of any of its fields fails), a block size \<open>n > 0\<close> and \<open>q = \<lceil>k / n\<rceil>\<close>: the first
  \<open>q + 1\<close> calls of \<^verbatim>\<open>readImpl\<close> all succeed; the first \<open>q\<close> of them return one batch each,
  with one column per column of the sample block and every column of exactly \<open>n\<close> rows,
  except in the last batch, where it is \<open>k mod n\<close> rows (or \<open>n\<close> when \<open>k mod n = 0\<close>); the
  call after them returns the empty block and leaves the cursor exhausted. So \<open>k = 0\<close>
  gives the empty block at once, and \<open>0 < k \<le> n\<close> gives one batch of \<open>k\<close> rows and then
  the empty block.
\<close>

theorem batches_of_a_source:
  assumes n: "0 < n" and mb: "max_block_size s = n" and k: "length (docs (cursor s)) = k"
    and q: "q = (k + n - 1) div n"
    and fits: "\<forall>row\<in>set (docs (cursor s)).
                 row_fits toDayNum (names s) (types s) (map column (sample_block s)) row"
  shows "\<exists>bs. fst (reads toDayNum (Suc q) s) = Inr bs
     \<and> length bs = Suc q
     \<and> (\<forall>i<q. length (bs ! i) = length (sample_block s)
           \<and> (\<forall>e\<in>set (bs ! i). size_col (column e)
                 = (if Suc i < q then n else if k mod n = 0 then n else k mod n)))
     \<and> bs ! q = []
     \<and> docs (cursor (snd (reads toDayNum (Suc q) s))) = []
     \<and> (k = 0 \<longrightarrow> bs = [[]])
     \<and> (0 < k \<and> k \<le> n \<longrightarrow> length bs = 2 \<and> (\<forall>e\<in>set (bs ! 0). size_col (column e) = k))"
proof -
  from reads_succeeds [OF fits, of "Suc q"] obtain bs s'' where
    r: "reads toDayNum (Suc q) s = (Inr bs, s'')" by blast
  from reads_batches [OF n mb k q r] have
    len: "length bs = Suc q" and
    each: "\<forall>i<q. length (bs ! i) = length (sample_block s)
           \<and> (\<forall>e\<in>set (bs ! i). size_col (column e)
                 = (if Suc i < q then n else if k mod n = 0 then n else k mod n))" and
    last: "bs ! q = []" and ex: "docs (cursor s'') = []"
    by simp_all
  have zero: "bs = [[]]" if "k = 0"
  proof -
    from that q n have "q = 0" by simp
    with len last show ?thesis by (cases bs) simp_all
  qed
  have one: "length bs = 2 \<and> (\<forall>e\<in>set (bs ! 0). size_col (column e) = k)" if "0 < k \<and> k \<le> n"
  proof -
    from that ceil_small [OF n] q have q1: "q = Suc 0" by simp
    with each have "\<forall>e\<in>set (bs ! 0). size_col (column e) = (if k mod n = 0 then n else k mod n)"
      by simp
    moreover have "(if k mod n = 0 then n else k mod n) = k"
      using that by (cases "k = n") simp_all
    ultimately show ?thesis using len q1 by simp
  qed
  have ex': "docs (cursor (snd (reads toDayNum (Suc q) s))) = []"
    using ex by (simp only: r snd_conv)
  have fst': "fst (reads toDayNum (Suc q) s) = Inr bs" by (simp only: r fst_conv)
  from fst' len each last ex' zero one show ?thesis by blast
qed

theorem batches_of_a_source_witness:
  "(0::nat) < 2 \<and> max_block_size scenario_stream = 2
   \<and> length (docs (cursor scenario_stream)) = 3 \<and> (2::nat) = (3 + 2 - 1) div 2
   \<and> list_all (row_fits example_toDayNum (names scenario_stream) (types scenario_stream)
                 (map column (sample_block scenario_stream))) (docs (cursor scenario_stream))
   \<and> fst (reads example_toDayNum 3 scenario_stream) = Inr
       [[\<lparr>column = ColumnUInt32 [1, 2], type = DataTypeUInt32, name = ''id''\<rparr>,
         \<lparr>column = ColumnString [''a'', []], type = DataTypeString, name = ''name''\<rparr>,
         \<lparr>column = ColumnUInt16 [100, 200], type = DataTypeDate, name = ''joined''\<rparr>],
        [\<lparr>column = ColumnUInt32 [3], type = DataTypeUInt32, name = ''id''\<rparr>,
         \<lparr>column = ColumnString [''c''], type = DataTypeString, name = ''name''\<rparr>,
         \<lparr>column = ColumnUInt16 [300], type = DataTypeDate, name = ''joined''\<rparr>],
        []]
   \<and> docs (cursor (snd (reads example_toDayNum 3 scenario_stream))) = []"
proof -
  have ev: "fst (reads example_toDayNum 3 scenario_stream) = Inr
       [[\<lparr>column = ColumnUInt32 [1, 2], type = DataTypeUInt32, name = ''id''\<rparr>,
         \<lparr>column = ColumnString [''a'', []], type = DataTypeString, name = ''name''\<rparr>,
         \<lparr>column = ColumnUInt16 [100, 200], type = DataTypeDate, name = ''joined''\<rparr>],
        [\<lparr>column = ColumnUInt32 [3], type = DataTypeUInt32, name = ''id''\<rparr>,
         \<lparr>column = ColumnString [''c''], type = DataTypeString, name = ''name''\<rparr>,
         \<lparr>column = ColumnUInt16 [300], type = DataTypeDate, name = ''joined''\<rparr>],
        []]"
    by (simp add: numeral_3_eq_3 scenario_stream_def scenario_docs_def scenario_block_def
         readImpl_def read_loop.simps cursor_more_def cursor_next_def cloneEmpty_def
         getField_def ok_def eoo_element_def isNumber_def toTimeT_def example_toDayNum_def)
  have mb: "max_block_size scenario_stream = 2" by (simp add: scenario_stream_def)
  have k: "length (docs (cursor scenario_stream)) = 3"
    by (simp add: scenario_stream_def scenario_docs_def)
  have q: "(2::nat) = (3 + 2 - 1) div 2" by simp
  have n: "(0::nat) < 2" by simp
  have fits: "list_all (row_fits example_toDayNum (names scenario_stream) (types scenario_stream)
                 (map column (sample_block scenario_stream))) (docs (cursor scenario_stream))"
    by (simp add: row_fits_def field_step_def numeral_3_eq_3 All_less_Suc
         scenario_stream_def scenario_docs_def scenario_block_def
         getField_def ok_def eoo_element_def isNumber_def)
  then have fits': "\<forall>row\<in>set (docs (cursor scenario_stream)).
      row_fits example_toDayNum (names scenario_stream) (types scenario_stream)
        (map column (sample_block scenario_stream)) row"
    by (simp only: list_all_iff)
  from batches_of_a_source [OF n mb k q fits']
  have "docs (cursor (snd (reads example_toDayNum (Suc 2) scenario_stream))) = []" by blast
  moreover have "Suc 2 = (3::nat)" by simp
  ultimately have "docs (cursor (snd (reads example_toDayNum 3 scenario_stream))) = []" by (simp only:)
  with ev mb k fits show ?thesis by simp
qed

text \<open>
  C2, as stated, fails for the terminal batch: the result that \<^verbatim>\<open>readImpl\<close> returns on an
  exhausted cursor is the empty block, which has no column at all. With one column in
  the sample block and an empty cursor, the constructor builds the stream below, and the
  block it returns has 0 columns, not 1.
\<close>

theorem terminal_batch_has_no_columns:
  "new_MongoDBBlockInputStream \<lparr>docs = [], calls = []\<rparr>
      [\<lparr>column = ColumnUInt32 [], type = DataTypeUInt32, name = ''id''\<rparr>] 2
     = Inr \<lparr>cursor = \<lparr>docs = [], calls = [call_more]\<rparr>,
            sample_block = [\<lparr>column = ColumnUInt32 [], type = DataTypeUInt32, name = ''id''\<rparr>],
            max_block_size = 2, types = [], names = []\<rparr>
   \<and> fst (readImpl example_toDayNum \<lparr>cursor = \<lparr>docs = [], calls = [call_more]\<rparr>,
            sample_block = [\<lparr>column = ColumnUInt32 [], type = DataTypeUInt32, name = ''id''\<rparr>],
            max_block_size = 2, types = [], names = []\<rparr>) = Inr []
   \<and> length ([] :: Block) \<noteq> length [\<lparr>column = ColumnUInt32 [], type = DataTypeUInt32, name = ''id''\<rparr>]"
  by (simp add: new_MongoDBBlockInputStream_def readImpl_def cursor_more_def)

text \<open>
  C2, amended. For a block size \<open>n > 0\<close>, every batch that \<^verbatim>\<open>readImpl\<close> returns while the
  cursor has documents has exactly one column per column of the sample block; the
  result returned on an exhausted cursor is the empty block, with no columns. In every
  returned batch all columns have the same length, the smaller of \<open>n\<close> and the number of
  documents left, which is at most \<open>n\<close>.
\<close>

theorem returned_batch_shape:
  assumes n: "0 < max_block_size s" and r: "fst (readImpl toDayNum s) = Inr b"
  shows "(if docs (cursor s) = [] then b = [] else length b = length (sample_block s))
     \<and> (\<forall>e\<in>set b. size_col (column e) = min (max_block_size s) (length (docs (cursor s))))
     \<and> min (max_block_size s) (length (docs (cursor s))) \<le> max_block_size s"
proof (cases "docs (cursor s) = []")
  case True
  with r show ?thesis by (simp add: readImpl_exhausted)
next
  case False
  obtain s' where r': "readImpl toDayNum s = (Inr b, s')" using r by (cases "readImpl toDayNum s") simp
  from readImpl_shape [OF r' False n] False show ?thesis by simp
qed

theorem returned_batch_shape_witness:
  "0 < max_block_size scenario_stream
   \<and> fst (readImpl example_toDayNum scenario_stream) = Inr
        [\<lparr>column = ColumnUInt32 [1, 2], type = DataTypeUInt32, name = ''id''\<rparr>,
         \<lparr>column = ColumnString [''a'', []], type = DataTypeString, name = ''name''\<rparr>,
         \<lparr>column = ColumnUInt16 [100, 200], type = DataTypeDate, name = ''joined''\<rparr>]
   \<and> length [\<lparr>column = ColumnUInt32 [1, 2], type = DataTypeUInt32, name = ''id''\<rparr>,
         \<lparr>column = ColumnString [''a'', []], type = DataTypeString, name = ''name''\<rparr>,
         \<lparr>column = ColumnUInt16 [100, 200], type = DataTypeDate, name = ''joined''\<rparr>]
       = length (sample_block scenario_stream)
   \<and> min (max_block_size scenario_stream) (length (docs (cursor scenario_stream))) = 2"
proof -
  have ev: "fst (readImpl example_toDayNum scenario_stream) = Inr
        [\<lparr>column = ColumnUInt32 [1, 2], type = DataTypeUInt32, name = ''id''\<rparr>,
         \<lparr>column = ColumnString [''a'', []], type = DataTypeString, name = ''name''\<rparr>,
         \<lparr>column = ColumnUInt16 [100, 200], type = DataTypeDate, name = ''joined''\<rparr>]"
    by (simp add: scenario_stream_def scenario_docs_def scenario_block_def
         readImpl_def read_loop.simps cursor_more_def cursor_next_def cloneEmpty_def
         getField_def ok_def eoo_element_def isNumber_def toTimeT_def example_toDayNum_def)
  have n: "0 < max_block_size scenario_stream" by (simp add: scenario_stream_def)
  have ne: "docs (cursor scenario_stream) \<noteq> []"
    by (simp add: scenario_stream_def scenario_docs_def)
  have m: "min (max_block_size scenario_stream) (length (docs (cursor scenario_stream))) = 2"
    by (simp add: scenario_stream_def scenario_docs_def)
  from returned_batch_shape [OF n ev] ne ev n m show ?thesis by simp
qed

text \<open>
  C3, as stated, fails for a cursor that reports no rows at construction: the constructor
  returns before it looks at the sample block (\<^verbatim>\<open>if (!cursor->more()) return;\<close>), so a
  schema with an unsupported descriptor is accepted. On an empty cursor and a column of
  type \<^verbatim>\<open>Array(UInt8)\<close> the constructor succeeds, with no kind bound.
\<close>

theorem empty_cursor_accepts_unsupported_type:
  "new_MongoDBBlockInputStream \<lparr>docs = [], calls = []\<rparr>
      [\<lparr>column = ColumnOther, type = DataTypeOther ''Array(UInt8)'', name = ''tags''\<rparr>] 1
     = Inr \<lparr>cursor = \<lparr>docs = [], calls = [call_more]\<rparr>,
            sample_block = [\<lparr>column = ColumnOther, type = DataTypeOther ''Array(UInt8)'', name = ''tags''\<rparr>],
            max_block_size = 1, types = [], names = []\<rparr>"
  by (simp add: new_MongoDBBlockInputStream_def cursor_more_def)

text \<open>
  C3, amended. For every cursor that reports rows at construction, and every sample
  block with a column whose descriptor is none of the thirteen supported ones while the
  columns before it are bound: the constructor throws \<^verbatim>\<open>UNKNOWN_TYPE\<close> with the message
  \<^verbatim>\<open>Unsupported type\<close> followed by the name of that descriptor. The cursor has been asked
  \<^verbatim>\<open>more()\<close> once and nothing else: no document has been taken from it.
\<close>

theorem unsupported_type_at_construction:
  assumes "docs c \<noteq> []" and "i < length sample" and "type (sample ! i) = DataTypeOther nm"
    and "\<forall>j<i. value_type_of (type (sample ! j)) \<noteq> None"
  shows "new_MongoDBBlockInputStream c sample n
     = Inl (Exception (''Unsupported type '' @ nm) UNKNOWN_TYPE, c\<lparr>calls := calls c @ [call_more]\<rparr>)"
proof -
  have "value_type_of (type (sample ! i)) = None"
    using assms(3) by (simp add: value_type_of_def)
  from bind_columns_unsupported [OF assms(2) this assms(4)] assms(1,3)
  show ?thesis
    by (simp add: new_MongoDBBlockInputStream_def cursor_more_def)
qed

theorem unsupported_type_at_construction_witness:
  "docs \<lparr>docs = [[]], calls = []\<rparr> \<noteq> []
   \<and> (1::nat) < length [\<lparr>column = ColumnUInt32 [], type = DataTypeUInt32, name = ''id''\<rparr>,
                        \<lparr>column = ColumnOther, type = DataTypeOther ''Array(UInt8)'', name = ''tags''\<rparr>]
   \<and> type ([\<lparr>column = ColumnUInt32 [], type = DataTypeUInt32, name = ''id''\<rparr>,
             \<lparr>column = ColumnOther, type = DataTypeOther ''Array(UInt8)'', name = ''tags''\<rparr>] ! 1)
       = DataTypeOther ''Array(UInt8)''
   \<and> value_type_of DataTypeUInt32 = Some UInt32
   \<and> new_MongoDBBlockInputStream \<lparr>docs = [[]], calls = []\<rparr>
        [\<lparr>column = ColumnUInt32 [], type = DataTypeUInt32, name = ''id''\<rparr>,
         \<lparr>column = ColumnOther, type = DataTypeOther ''Array(UInt8)'', name = ''tags''\<rparr>] 2
       = Inl (Exception ''Unsupported type Array(UInt8)'' UNKNOWN_TYPE, \<lparr>docs = [[]], calls = [call_more]\<rparr>)"
proof -
  let ?sample = "[\<lparr>column = ColumnUInt32 [], type = DataTypeUInt32, name = ''id''\<rparr>,
                  \<lparr>column = ColumnOther, type = DataTypeOther ''Array(UInt8)'', name = ''tags''\<rparr>]"
  have h1: "docs \<lparr>docs = [[]], calls = []\<rparr> \<noteq> []" by simp
  have h2: "(1::nat) < length ?sample" by simp
  have h3: "type (?sample ! 1) = DataTypeOther ''Array(UInt8)''" by simp
  have v: "value_type_of DataTypeUInt32 = Some UInt32" by (simp add: value_type_of_def)
  then have h4: "\<forall>j<(1::nat). value_type_of (type (?sample ! j)) \<noteq> None" by simp
  from unsupported_type_at_construction [OF h1 h2 h3 h4, of 2] h1 h2 h3 v
  show ?thesis by simp
qed

text \<open>
  C4. The scalar-kind mapping should bind each of the thirteen supported descriptors, a
  \<^verbatim>\<open>Float64\<close> descriptor to the kind \<open>Float64\<close>. The constructor binds twelve of them and
  not \<^verbatim>\<open>Float64\<close>: the test that guards \<^verbatim>\<open>value_type_t::Float64\<close> asks for
  \<^verbatim>\<open>DataTypeInt64\<close>, which the eighth test has already taken, so a \<^verbatim>\<open>Float64\<close> descriptor
  falls through to the final \<^verbatim>\<open>throw\<close>. Evaluated on a sample block with one \<^verbatim>\<open>Float64\<close>
  column and a cursor holding one document: the constructor throws
  \<^verbatim>\<open>Unsupported type Float64\<close>.
\<close>

theorem Float64_descriptor_is_rejected:
  "map value_type_of
      [DataTypeUInt8, DataTypeUInt16, DataTypeUInt32, DataTypeUInt64,
       DataTypeInt8, DataTypeInt16, DataTypeInt32, DataTypeInt64,
       DataTypeFloat32, DataTypeFloat64, DataTypeString, DataTypeDate, DataTypeDateTime]
     = [Some UInt8, Some UInt16, Some UInt32, Some UInt64,
        Some Int8, Some Int16, Some Int32, Some Int64,
        Some Float32, None, Some String, Some Date, Some DateTime]
   \<and> new_MongoDBBlockInputStream \<lparr>docs = [[]], calls = []\<rparr>
        [\<lparr>column = ColumnFloat64 [], type = DataTypeFloat64, name = ''x''\<rparr>] 1
     = Inl (Exception ''Unsupported type Float64'' UNKNOWN_TYPE, \<lparr>docs = [[]], calls = [call_more]\<rparr>)"
  by (simp add: new_MongoDBBlockInputStream_def cursor_more_def value_type_of_def)

text \<open>
  C5. For a \<open>UInt8\<close> field, a present value that is not a boolean fails with
  \<^verbatim>\<open>TYPE_MISMATCH\<close>, and a boolean should be appended as 1 or 0 to the field's
  \<^verbatim>\<open>ColumnUInt8\<close>. The first half holds. For the second, the \<open>UInt8\<close> case of \<^verbatim>\<open>insertValue\<close>
  casts the column to \<^verbatim>\<open>ColumnFloat64\<close>, while \<^verbatim>\<open>insertDefaultValue\<close> casts the column of
  the same kind to \<^verbatim>\<open>ColumnUInt8\<close>. Evaluated: a number is rejected; inserting the boolean
  \<open>true\<close> into a \<^verbatim>\<open>ColumnUInt8\<close> has no defined behaviour, both directly and through the
  stream that the constructor builds over one document; the default of the same kind is
  appended to the \<^verbatim>\<open>ColumnUInt8\<close>.
\<close>

theorem UInt8_true_is_not_appended:
  "insertValue example_toDayNum (ColumnUInt8 []) UInt8 (eoo_element\<lparr>type_e := NumberInt, numberInt := 1\<rparr>)
     = Inl (Exception ''Type mismatch, expected Bool, got NumberInt32'' TYPE_MISMATCH)
   \<and> insertValue example_toDayNum (ColumnUInt8 []) UInt8 (eoo_element\<lparr>type_e := Bool, boolean := True\<rparr>)
     = Inl UndefinedBehaviour
   \<and> insertDefaultValue (ColumnUInt8 []) UInt8 = Inr (ColumnUInt8 [0])
   \<and> new_MongoDBBlockInputStream
        \<lparr>docs = [[(''flag'', eoo_element\<lparr>type_e := Bool, boolean := True\<rparr>)]], calls = []\<rparr>
        [\<lparr>column = ColumnUInt8 [], type = DataTypeUInt8, name = ''flag''\<rparr>] 1
      = Inr \<lparr>cursor = \<lparr>docs = [[(''flag'', eoo_element\<lparr>type_e := Bool, boolean := True\<rparr>)]],
                        calls = [call_more]\<rparr>,
             sample_block = [\<lparr>column = ColumnUInt8 [], type = DataTypeUInt8, name = ''flag''\<rparr>],
             max_block_size = 1, types = [UInt8], names = [''flag'']\<rparr>
   \<and> fst (readImpl example_toDayNum
        \<lparr>cursor = \<lparr>docs = [[(''flag'', eoo_element\<lparr>type_e := Bool, boolean := True\<rparr>)]],
                    calls = [call_more]\<rparr>,
          sample_block = [\<lparr>column = ColumnUInt8 [], type = DataTypeUInt8, name = ''flag''\<rparr>],
          max_block_size = 1, types = [UInt8], names = [''flag'']\<rparr>) = Inl UndefinedBehaviour"
  by (simp add: new_MongoDBBlockInputStream_def cursor_more_def cursor_next_def value_type_of_def
       readImpl_def read_loop.simps cloneEmpty_def getField_def ok_def eoo_element_def)

text \<open>
  C6, as stated, fails in its last part: the stream keeps no record of exhaustion, and
  every call of \<^verbatim>\<open>readImpl\<close> starts by asking the cursor \<^verbatim>\<open>more()\<close>. On a stream whose
  cursor is empty, the first call returns the empty block, the second returns it again,
  and the second call has asked the cursor once more.
\<close>

theorem exhausted_stream_asks_the_cursor_again:
  "fst (readImpl example_toDayNum \<lparr>cursor = \<lparr>docs = [], calls = [call_more]\<rparr>,
          sample_block = [\<lparr>column = ColumnUInt32 [], type = DataTypeUInt32, name = ''id''\<rparr>],
          max_block_size = 2, types = [], names = []\<rparr>) = Inr []
   \<and> readImpl example_toDayNum (snd (readImpl example_toDayNum \<lparr>cursor = \<lparr>docs = [], calls = [call_more]\<rparr>,
          sample_block = [\<lparr>column = ColumnUInt32 [], type = DataTypeUInt32, name = ''id''\<rparr>],
          max_block_size = 2, types = [], names = []\<rparr>))
     = (Inr [], \<lparr>cursor = \<lparr>docs = [], calls = [call_more, call_more, call_more]\<rparr>,
          sample_block = [\<lparr>column = ColumnUInt32 [], type = DataTypeUInt32, name = ''id''\<rparr>],
          max_block_size = 2, types = [], names = []\<rparr>)
   \<and> calls (cursor (snd (readImpl example_toDayNum \<lparr>cursor = \<lparr>docs = [], calls = [call_more]\<rparr>,
          sample_block = [\<lparr>column = ColumnUInt32 [], type = DataTypeUInt32, name = ''id''\<rparr>],
          max_block_size = 2, types = [], names = []\<rparr>))) = [call_more, call_more]"
  by (simp add: readImpl_def cursor_more_def)

text \<open>
  C6, amended. Once the cursor is exhausted, every call of \<^verbatim>\<open>readImpl\<close> returns the empty
  block and takes no document from the cursor; each call asks the cursor \<^verbatim>\<open>more()\<close> once
  and does nothing else to it, and nothing else of the stream changes. Stated for any
  number \<open>m\<close> of calls in a row.
\<close>

theorem exhausted_stream_stays_exhausted:
  assumes "docs (cursor s) = []"
  shows "fst (reads toDayNum m s) = Inr (replicate m [])
     \<and> snd (reads toDayNum m s)
       = s\<lparr>cursor := (cursor s)\<lparr>calls := calls (cursor s) @ replicate m call_more\<rparr>\<rparr>
     \<and> docs (cursor (snd (reads toDayNum m s))) = []"
  using assms by (simp add: reads_exhausted)

theorem exhausted_stream_stays_exhausted_witness:
  "docs (cursor \<lparr>cursor = \<lparr>docs = [], calls = [call_more]\<rparr>,
          sample_block = [\<lparr>column = ColumnUInt32 [], type = DataTypeUInt32, name = ''id''\<rparr>],
          max_block_size = 2, types = [], names = []\<rparr>) = []
   \<and> fst (reads example_toDayNum 2 \<lparr>cursor = \<lparr>docs = [], calls = [call_more]\<rparr>,
          sample_block = [\<lparr>column = ColumnUInt32 [], type = DataTypeUInt32, name = ''id''\<rparr>],
          max_block_size = 2, types = [], names = []\<rparr>) = Inr [[], []]
   \<and> snd (reads example_toDayNum 2 \<lparr>cursor = \<lparr>docs = [], calls = [call_more]\<rparr>,
          sample_block = [\<lparr>column = ColumnUInt32 [], type = DataTypeUInt32, name = ''id''\<rparr>],
          max_block_size = 2, types = [], names = []\<rparr>)
     = \<lparr>cursor = \<lparr>docs = [], calls = [call_more, call_more, call_more]\<rparr>,
          sample_block = [\<lparr>column = ColumnUInt32 [], type = DataTypeUInt32, name = ''id''\<rparr>],
          max_block_size = 2, types = [], names = []\<rparr>"
proof -
  let ?s = "\<lparr>cursor = \<lparr>docs = [], calls = [call_more]\<rparr>,
          sample_block = [\<lparr>column = ColumnUInt32 [], type = DataTypeUInt32, name = ''id''\<rparr>],
          max_block_size = 2, types = [], names = []\<rparr>"
  have h: "docs (cursor ?s) = []" by simp
  from exhausted_stream_stays_exhausted [OF h, of example_toDayNum 2] h
  show ?thesis by (simp add: numeral_2_eq_2)
qed






text \<open>
  C9. For each of the nine numeric kinds, coercing a present value whose runtime tag is
  not a number, a string in particular, fails with \<^verbatim>\<open>TYPE_MISMATCH\<close>; the message says
  that a number was expected and names the actual tag. The outcome does not depend on
  what the value holds, so nothing is parsed. When such a value is in a document that
  the current call of \<^verbatim>\<open>readImpl\<close> reaches (document \<open>j\<close>, below the block size), the call
  fails: no batch is returned, partial or not.
\<close>

theorem non_number_is_a_type_mismatch:
  assumes kind: "t \<in> {UInt16, UInt32, UInt64, Int8, Int16, Int32, Int64, Float32, Float64}"
    and nn: "\<not> isNumber v" and present: "ok v"
    and idx: "idx < length (sample_block s)" and ty: "types s ! idx = t"
    and j: "j < length (docs (cursor s))" "j < max_block_size s"
    and val: "getField (docs (cursor s) ! j) (names s ! idx) = v"
  shows "insertValue toDayNum col t v
       = Inl (Exception (''Type mismatch, expected a number, got '' @ typeName (type_e v)) TYPE_MISMATCH)
     \<and> (\<exists>e. fst (readImpl toDayNum s) = Inl e)"
proof -
  have fails: "insertValue toDayNum a t v
       = Inl (Exception (''Type mismatch, expected a number, got '' @ typeName (type_e v)) TYPE_MISMATCH)"
    for a
    using kind nn by auto
  have "\<exists>e. fst (readImpl toDayNum s) = Inl e"
  proof (cases "fst (readImpl toDayNum s)")
    case (Inl e)
    then show ?thesis by simp
  next
    case (Inr b)
    then obtain s' where r: "readImpl toDayNum s = (Inr b, s')" by (cases "readImpl toDayNum s") simp
    from j have ne: "docs (cursor s) \<noteq> []" by auto
    from readImpl_rows [OF r ne] idx have ib: "idx < length b" by simp
    from j have jt: "j < rows_taken (max_block_size s) 0 (length (docs (cursor s)))"
      by (simp add: rows_taken_def)
    from readImpl_cells(2) [OF r ne ib] jt obtain a a' where
      "field_step toDayNum (names s) (types s) (docs (cursor s) ! j) idx a = Inr a'"
      by blast
    with val present ty have "insertValue toDayNum a t v = Inr a'" by (simp add: field_step_def)
    with fails [of a] show ?thesis by simp
  qed
  with fails [of col] show ?thesis by simp
qed

theorem non_number_is_a_type_mismatch_witness:
  "UInt32 \<in> {UInt16, UInt32, UInt64, Int8, Int16, Int32, Int64, Float32, Float64}
   \<and> \<not> isNumber (eoo_element\<lparr>type_e := mongo_String, String_e := ''42''\<rparr>)
   \<and> ok (eoo_element\<lparr>type_e := mongo_String, String_e := ''42''\<rparr>)
   \<and> (0::nat) < length (sample_block string_id_stream)
   \<and> types string_id_stream ! 0 = UInt32
   \<and> (0::nat) < length (docs (cursor string_id_stream))
   \<and> (0::nat) < max_block_size string_id_stream
   \<and> getField (docs (cursor string_id_stream) ! 0) (names string_id_stream ! 0)
       = eoo_element\<lparr>type_e := mongo_String, String_e := ''42''\<rparr>
   \<and> insertValue example_toDayNum (ColumnUInt32 []) UInt32 (eoo_element\<lparr>type_e := mongo_String, String_e := ''42''\<rparr>)
       = Inl (Exception ''Type mismatch, expected a number, got String'' TYPE_MISMATCH)
   \<and> fst (readImpl example_toDayNum string_id_stream)
       = Inl (Exception ''Type mismatch, expected a number, got String'' TYPE_MISMATCH)"
proof -
  let ?v = "eoo_element\<lparr>type_e := mongo_String, String_e := ''42''\<rparr>"
  have h1: "UInt32 \<in> {UInt16, UInt32, UInt64, Int8, Int16, Int32, Int64, Float32, Float64}" by simp
  have h2: "\<not> isNumber ?v" by (simp add: isNumber_def eoo_element_def)
  have h3: "ok ?v" by (simp add: ok_def eoo_element_def)
  have h4: "(0::nat) < length (sample_block string_id_stream)" by (simp add: string_id_stream_def)
  have h5: "types string_id_stream ! 0 = UInt32" by (simp add: string_id_stream_def)
  have h6: "(0::nat) < length (docs (cursor string_id_stream))" by (simp add: string_id_stream_def)
  have h7: "(0::nat) < max_block_size string_id_stream" by (simp add: string_id_stream_def)
  have h8: "getField (docs (cursor string_id_stream) ! 0) (names string_id_stream ! 0) = ?v"
    by (simp add: string_id_stream_def getField_def)
  have ev: "fst (readImpl example_toDayNum string_id_stream)
       = Inl (Exception ''Type mismatch, expected a number, got String'' TYPE_MISMATCH)"
    by (simp add: string_id_stream_def readImpl_def read_loop.simps cursor_more_def
         cursor_next_def cloneEmpty_def getField_def ok_def eoo_element_def isNumber_def)
  from non_number_is_a_type_mismatch [OF h1 h2 h3 h4 h5 h6 h7 h8, of example_toDayNum "ColumnUInt32 []"]
  have "insertValue example_toDayNum (ColumnUInt32 []) UInt32 ?v
       = Inl (Exception (''Type mismatch, expected a number, got '' @ typeName (type_e ?v)) TYPE_MISMATCH)"
    by simp
  then have e: "insertValue example_toDayNum (ColumnUInt32 []) UInt32 ?v
       = Inl (Exception ''Type mismatch, expected a number, got String'' TYPE_MISMATCH)"
    by (simp add: eoo_element_def)
  from h1 h2 h3 h4 h5 h6 h7 h8 e ev show ?thesis by simp
qed




end
